theory Spec2Isabelle
  imports Main "HOL-Library.Word" "HOL-Library.Monad_Syntax"
begin

section \<open>The message manager of juce\_MessageManager.cpp\<close>

text \<open>
  The development follows \<^verbatim>\<open>src/juce_appframework/events/juce_MessageManager.cpp\<close>.
  Every member function of \<^verbatim>\<open>MessageManager\<close> and of \<^verbatim>\<open>MessageManagerLock\<close>
  becomes a function on a record \<open>world\<close> that holds everything the C++ code
  reaches: the static pointer \<^verbatim>\<open>MessageManager::instance\<close>, the \<^verbatim>\<open>Message\<close> objects
  that are alive, the queue of the operating system, the clock, and a log of the calls
  that leave the file (platform functions, handlers, \<^verbatim>\<open>delete\<close>).

  A call returns \<open>Some\<close> of its result and the new world. \<open>None\<close> means that the
  call does not return in the run that is modelled: the thread waits on the mutex or on
  an empty queue and no other thread runs, a loop never ends, or the code dereferences
  an object that is gone.

  The calling thread is an explicit argument \<open>tid\<close>: it is the value of
  \<^verbatim>\<open>Thread::getCurrentThreadId()\<close>.
\<close>

subsection \<open>Data\<close>

type_synonym ThreadID = nat

text \<open>A pointer is a number, \<open>0\<close> the null pointer.\<close>

type_synonym ptr = nat

text \<open>
  Modelled from the spec: the class \<^verbatim>\<open>Message\<close> is declared outside the file. It holds
  the recipient, the integer tag \<^verbatim>\<open>intParameter1\<close> by which the quit message is
  recognised, and further payload. The file uses the constructor with three integers and
  a pointer, and the fields \<^verbatim>\<open>messageRecipient\<close> and \<^verbatim>\<open>intParameter1\<close>.
\<close>

record Message =
  intParameter1 :: "32 word"
  intParameter2 :: "32 word"
  intParameter3 :: "32 word"
  pointerParameter :: ptr
  messageRecipient :: ptr

text \<open>
  Modelled from the spec: the class \<^verbatim>\<open>CriticalSection\<close> of
  \<^verbatim>\<open>messageDispatchLock\<close> is not part of the file. The spec describes it as a mutex
  with \<open>enter\<close>, \<open>try_enter\<close> and \<open>exit\<close> that is not recursive. Its state is its
  owner, if any. \<open>enter\<close> on a mutex that is held waits (\<open>None\<close>), \<open>tryEnter\<close> reports
  failure and changes nothing, \<open>exit\<close> leaves the mutex free.
\<close>

type_synonym CriticalSection = "ThreadID option"

definition CriticalSection_enter :: "ThreadID \<Rightarrow> CriticalSection \<Rightarrow> CriticalSection option" where
  "CriticalSection_enter tid cs = (case cs of None \<Rightarrow> Some (Some tid) | Some _ \<Rightarrow> None)"

definition CriticalSection_tryEnter :: "ThreadID \<Rightarrow> CriticalSection \<Rightarrow> bool \<times> CriticalSection" where
  "CriticalSection_tryEnter tid cs = (case cs of None \<Rightarrow> (True, Some tid) | Some _ \<Rightarrow> (False, cs))"

definition CriticalSection_exit :: "CriticalSection \<Rightarrow> CriticalSection" where
  "CriticalSection_exit cs = None"

record MessageManager =
  messageListeners :: "ptr set"
  broadcastListeners :: "ptr list option"
  quitMessagePosted :: bool
  quitMessageReceived :: bool
  messageThreadId :: ThreadID
  currentLockingThreadId :: ThreadID
  messageDispatchLock :: CriticalSection

text \<open>The calls that leave the file, in the order in which they happen.\<close>

datatype event =
    PostToSystemQueue ptr bool
  | DispatchNext bool
  | HandleMessage ptr ptr
  | ExceptionCaught
  | DeleteMessage ptr

record 'u world =
  instance' :: "MessageManager option"
  heap :: "ptr \<Rightarrow> Message option"
  systemQueue :: "ptr list"
  queueCapacity :: nat
  timeSource :: "nat \<Rightarrow> 64 word"
  timeCalls :: nat
  exitSignalled :: "ptr set"
  app :: 'u
  trace :: "event list"

text \<open>
  \<open>instance'\<close> is \<^verbatim>\<open>MessageManager::instance\<close> (\<open>None\<close> is the null pointer), \<open>heap\<close>
  maps the address of every live \<^verbatim>\<open>Message\<close> to its fields, \<open>timeSource\<close> gives the
  value of the \<open>n\<close>-th call of \<^verbatim>\<open>Time::currentTimeMillis()\<close>, \<open>exitSignalled\<close> holds the
  \<^verbatim>\<open>Thread\<close> objects whose \<^verbatim>\<open>threadShouldExit()\<close> answers true, \<open>app\<close> is the state
  of the application that the message handlers work on.
\<close>

definition quitMessageId :: "32 word" where
  "quitMessageId = 0xfffff321"

subsection \<open>Construction and thread identity\<close>

definition MessageManager_ctor :: "ThreadID \<Rightarrow> MessageManager" where
  "MessageManager_ctor tid =
     \<lparr> messageListeners = {},
       broadcastListeners = None,
       quitMessagePosted = False,
       quitMessageReceived = False,
       messageThreadId = tid,
       currentLockingThreadId = 0,
       messageDispatchLock = None \<rparr>"

text \<open>
  \<^verbatim>\<open>getInstance\<close> and the destructor call the platform's initialisation and shutdown,
  which the file only declares: they are the arguments \<open>init\<close> and \<open>shutdown\<close>. The
  destructor clears \<^verbatim>\<open>instance\<close> last.
\<close>

definition MessageManager_getInstance ::
  "('u world \<Rightarrow> 'u world) \<Rightarrow> ThreadID \<Rightarrow> 'u world \<Rightarrow> 'u world" where
  "MessageManager_getInstance init tid w =
     (case instance' w of
        None \<Rightarrow> init (w\<lparr>instance' := Some (MessageManager_ctor tid)\<rparr>)
      | Some _ \<Rightarrow> w)"

definition MessageManager_dtor :: "('u world \<Rightarrow> 'u world) \<Rightarrow> 'u world \<Rightarrow> 'u world" where
  "MessageManager_dtor shutdown w =
     (shutdown
        (case instance' w of
           None \<Rightarrow> w
         | Some this \<Rightarrow> w\<lparr>instance' := Some (this\<lparr>broadcastListeners := None\<rparr>)\<rparr>))
     \<lparr>instance' := None\<rparr>"

definition isThisTheMessageThread :: "ThreadID \<Rightarrow> MessageManager \<Rightarrow> bool" where
  "isThisTheMessageThread tid mm = (tid = messageThreadId mm)"

definition setCurrentMessageThread :: "ThreadID \<Rightarrow> MessageManager \<Rightarrow> MessageManager" where
  "setCurrentMessageThread threadId mm = mm\<lparr>messageThreadId := threadId\<rparr>"

definition currentThreadHasLockedMessageManager :: "ThreadID \<Rightarrow> MessageManager \<Rightarrow> bool" where
  "currentThreadHasLockedMessageManager tid mm = (tid = currentLockingThreadId mm)"

subsection \<open>MessageManagerLock\<close>

record MessageManagerLock =
  lastLockingThreadId :: ThreadID
  locked :: bool

definition MessageManagerLock_ctor ::
  "ThreadID \<Rightarrow> 'u world \<Rightarrow> (MessageManagerLock \<times> 'u world) option" where
  "MessageManagerLock_ctor tid w =
     (case instance' w of
        None \<Rightarrow> Some (\<lparr>lastLockingThreadId = 0, locked = False\<rparr>, w)
      | Some mm \<Rightarrow>
          (case CriticalSection_enter tid (messageDispatchLock mm) of
             None \<Rightarrow> None
           | Some cs \<Rightarrow>
               Some (\<lparr>lastLockingThreadId = currentLockingThreadId mm, locked = True\<rparr>,
                     w\<lparr>instance' := Some (mm\<lparr>messageDispatchLock := cs,
                                               currentLockingThreadId := tid\<rparr>)\<rparr>)))"

definition MessageManagerLock_dtor :: "MessageManagerLock \<Rightarrow> 'u world \<Rightarrow> 'u world" where
  "MessageManagerLock_dtor lock w =
     (if locked lock
      then (case instance' w of
              None \<Rightarrow> w
            | Some mm \<Rightarrow>
                w\<lparr>instance' := Some (mm\<lparr>currentLockingThreadId := lastLockingThreadId lock,
                                          messageDispatchLock :=
                                            CriticalSection_exit (messageDispatchLock mm)\<rparr>)\<rparr>)
      else w)"

text \<open>
  The constructor that takes a \<^verbatim>\<open>Thread*\<close> polls. \<^verbatim>\<open>Thread::sleep (1)\<close> is where
  the other threads run: \<open>sleep i\<close> is what they do to the world during the \<open>i\<close>-th
  sleep. The constructor leaves \<^verbatim>\<open>lastLockingThreadId\<close> uninitialised unless it takes
  the lock: \<open>junk\<close> is the value the member then has. \<^verbatim>\<open>jassert\<close> is a check of debug
  builds that does not end the call and is left out.
\<close>

text \<open>
  Modelled from the spec: the class \<^verbatim>\<open>Thread\<close> is outside the file. By the spec the
  handle of a worker thread gives a predicate \<open>should_exit\<close>, which other threads make
  true.
\<close>

definition threadShouldExit :: "ptr \<Rightarrow> 'u world \<Rightarrow> bool" where
  "threadShouldExit thread w = (thread \<in> exitSignalled w)"

partial_function (option) MessageManagerLock_poll ::
  "(nat \<Rightarrow> 'u world \<Rightarrow> 'u world) \<Rightarrow> ptr \<Rightarrow> ThreadID \<Rightarrow> ThreadID \<Rightarrow> nat \<Rightarrow> 'u world
     \<Rightarrow> (MessageManagerLock \<times> 'u world) option" where
  "MessageManagerLock_poll sleep thread tid junk i w =
     (case instance' w of
        None \<Rightarrow> None
      | Some mm \<Rightarrow>
          (case CriticalSection_tryEnter tid (messageDispatchLock mm) of
             (entered, cs) \<Rightarrow>
               if entered
               then Some (\<lparr>lastLockingThreadId = currentLockingThreadId mm, locked = True\<rparr>,
                          w\<lparr>instance' := Some (mm\<lparr>messageDispatchLock := cs,
                                                    currentLockingThreadId := tid\<rparr>)\<rparr>)
               else if thread \<noteq> 0 \<and> threadShouldExit thread w
               then Some (\<lparr>lastLockingThreadId = junk, locked = False\<rparr>, w)
               else MessageManagerLock_poll sleep thread tid junk (Suc i) (sleep i w)))"

definition MessageManagerLock_ctor_Thread ::
  "(nat \<Rightarrow> 'u world \<Rightarrow> 'u world) \<Rightarrow> ptr \<Rightarrow> ThreadID \<Rightarrow> ThreadID \<Rightarrow> 'u world
     \<Rightarrow> (MessageManagerLock \<times> 'u world) option" where
  "MessageManagerLock_ctor_Thread sleep thread tid junk w =
     (case instance' w of
        None \<Rightarrow> Some (\<lparr>lastLockingThreadId = junk, locked = False\<rparr>, w)
      | Some _ \<Rightarrow> MessageManagerLock_poll sleep thread tid junk 0 w)"


subsection \<open>Messages and the queue of the operating system\<close>

text \<open>
  \<^verbatim>\<open>new Message\<close> at the address \<open>p\<close> the allocator chooses; there is no such run when
  \<open>p\<close> is null or the address of a live message. \<^verbatim>\<open>delete\<close> of a null pointer does
  nothing, \<^verbatim>\<open>delete\<close> of a message that is gone has no defined result.
\<close>

definition Message_ctor :: "32 word \<Rightarrow> 32 word \<Rightarrow> 32 word \<Rightarrow> ptr \<Rightarrow> Message" where
  "Message_ctor i1 i2 i3 p =
     \<lparr> intParameter1 = i1, intParameter2 = i2, intParameter3 = i3,
       pointerParameter = p, messageRecipient = 0 \<rparr>"

definition new_Message :: "ptr \<Rightarrow> Message \<Rightarrow> 'u world \<Rightarrow> 'u world option" where
  "new_Message p m w =
     (if p = 0 \<or> heap w p \<noteq> None then None else Some (w\<lparr>heap := (heap w)(p \<mapsto> m)\<rparr>))"

definition Message_at :: "ptr \<Rightarrow> 'u world \<Rightarrow> Message option" where
  "Message_at p w = (if p = 0 then None else heap w p)"

definition delete_Message :: "ptr \<Rightarrow> 'u world \<Rightarrow> 'u world option" where
  "delete_Message p w =
     (if p = 0 then Some w
      else (case heap w p of
              None \<Rightarrow> None
            | Some _ \<Rightarrow> Some (w\<lparr>heap := (heap w)(p := None),
                                trace := trace w @ [DeleteMessage p]\<rparr>)))"

text \<open>
  Modelled from the spec: \<^verbatim>\<open>juce_postMessageToSystemQueue\<close> is only declared in the
  file. By the spec it enqueues the message and returns true iff the operating system
  accepted ownership. The queue accepts while it holds fewer than \<open>queueCapacity\<close>
  messages.
\<close>

definition juce_postMessageToSystemQueue :: "ptr \<Rightarrow> 'u world \<Rightarrow> bool \<times> 'u world" where
  "juce_postMessageToSystemQueue message w =
     (let accepted = (length (systemQueue w) < queueCapacity w);
          w1 = w\<lparr>trace := trace w @ [PostToSystemQueue message accepted]\<rparr>
      in if accepted then (True, w1\<lparr>systemQueue := systemQueue w @ [message]\<rparr>)
         else (False, w1))"

definition postMessageToQueue :: "ptr \<Rightarrow> 'u world \<Rightarrow> 'u world option" where
  "postMessageToQueue message w =
     (case instance' w of
        None \<Rightarrow> None
      | Some mm \<Rightarrow>
          if quitMessagePosted mm then delete_Message message w
          else (case juce_postMessageToSystemQueue message w of
                  (accepted, w1) \<Rightarrow>
                    if \<not> accepted then delete_Message message w1 else Some w1))"

subsection \<open>Delivery\<close>

text \<open>
  \<^verbatim>\<open>recipient->handleMessage (*m)\<close> is code of the application. It is the argument
  \<open>handleMessage\<close>: from the recipient, the message and the state of the application it
  gives the new state and whether the call returned or threw (\<open>None\<close>: the handler does
  not return). A handler that calls back into the message manager is outside the model.
\<close>

datatype completion = Returned | Threw

type_synonym 'u handler = "ptr \<Rightarrow> Message \<Rightarrow> 'u \<Rightarrow> (completion \<times> 'u) option"

text \<open>
  Modelled from the spec: the macros \<^verbatim>\<open>JUCE_TRY\<close> and \<^verbatim>\<open>JUCE_CATCH_EXCEPTION\<close> are not
  defined in the file. By the spec they are a barrier: whatever the guarded call throws
  is caught and suppressed, and the code after the barrier runs.
\<close>

definition JUCE_CATCH_EXCEPTION :: "completion \<Rightarrow> 'u world \<Rightarrow> 'u world" where
  "JUCE_CATCH_EXCEPTION c w =
     (case c of Returned \<Rightarrow> w | Threw \<Rightarrow> w\<lparr>trace := trace w @ [ExceptionCaught]\<rparr>)"

definition deliverMessage :: "'u handler \<Rightarrow> ThreadID \<Rightarrow> ptr \<Rightarrow> 'u world \<Rightarrow> 'u world option" where
  "deliverMessage handleMessage tid message w =
     do {
       _ \<leftarrow> instance' w;
       (lock, w1) \<leftarrow> MessageManagerLock_ctor tid w;
       m \<leftarrow> Message_at message w1;
       this \<leftarrow> instance' w1;
       let recipient = messageRecipient m;
       w2 \<leftarrow>
         (if recipient \<in> messageListeners this
          then do {
                 (c, a) \<leftarrow> handleMessage recipient m (app w1);
                 Some (JUCE_CATCH_EXCEPTION c
                         (w1\<lparr>app := a, trace := trace w1 @ [HandleMessage recipient message]\<rparr>))
               }
          else if recipient = 0 \<and> intParameter1 m = quitMessageId
          then Some (w1\<lparr>instance' := Some (this\<lparr>quitMessageReceived := True\<rparr>)\<rparr>)
          else Some w1);
       w3 \<leftarrow> delete_Message message w2;
       Some (MessageManagerLock_dtor lock w3)
     }"

subsection \<open>The dispatch loop\<close>

text \<open>
  Modelled from the spec: \<^verbatim>\<open>juce_dispatchNextMessageOnSystemQueue\<close> is only declared
  in the file. By the spec it pops one message and dispatches it through
  \<^verbatim>\<open>deliverMessage\<close>; on an empty queue it returns at once when its argument is true
  and otherwise waits for a message.
\<close>

definition juce_dispatchNextMessageOnSystemQueue ::
  "'u handler \<Rightarrow> ThreadID \<Rightarrow> bool \<Rightarrow> 'u world \<Rightarrow> (bool \<times> 'u world) option" where
  "juce_dispatchNextMessageOnSystemQueue handleMessage tid returnIfNoPendingMessages w =
     (let w1 = w\<lparr>trace := trace w @ [DispatchNext returnIfNoPendingMessages]\<rparr>
      in case systemQueue w1 of
           [] \<Rightarrow> if returnIfNoPendingMessages then Some (False, w1) else None
         | message # rest \<Rightarrow>
             do {
               w2 \<leftarrow> deliverMessage handleMessage tid message (w1\<lparr>systemQueue := rest\<rparr>);
               Some (True, w2)
             })"

text \<open>
  \<^verbatim>\<open>Time::currentTimeMillis()\<close> is outside the file: its successive values are the
  values of \<open>timeSource\<close>, whatever they are. The end time is computed in 64 bits from
  the 32-bit \<^verbatim>\<open>int\<close> argument, sign-extended; the comparisons are signed.
\<close>

definition Time_currentTimeMillis :: "'u world \<Rightarrow> 64 word \<times> 'u world" where
  "Time_currentTimeMillis w = (timeSource w (timeCalls w), w\<lparr>timeCalls := Suc (timeCalls w)\<rparr>)"

text \<open>
  The condition of the \<^verbatim>\<open>while\<close> loop, with the short circuit of \<^verbatim>\<open>||\<close>: the clock is
  read only when \<^verbatim>\<open>millisecondsToRunFor\<close> is not negative.
\<close>

definition keepDispatching :: "32 word \<Rightarrow> 64 word \<Rightarrow> 'u world \<Rightarrow> (bool \<times> 'u world) option" where
  "keepDispatching millisecondsToRunFor endTime w =
     (case instance' w of
        None \<Rightarrow> None
      | Some this \<Rightarrow>
          if millisecondsToRunFor <s 0 then Some (\<not> quitMessageReceived this, w)
          else (case Time_currentTimeMillis w of
                  (now, w1) \<Rightarrow> Some (now <s endTime \<and> \<not> quitMessageReceived this, w1)))"

partial_function (option) dispatchLoop ::
  "'u handler \<Rightarrow> ThreadID \<Rightarrow> 32 word \<Rightarrow> 64 word \<Rightarrow> 'u world \<Rightarrow> (bool \<times> 'u world) option" where
  "dispatchLoop handleMessage tid millisecondsToRunFor endTime w =
     do {
       (continue, w1) \<leftarrow> keepDispatching millisecondsToRunFor endTime w;
       if continue
       then do {
              (_, w2) \<leftarrow> juce_dispatchNextMessageOnSystemQueue handleMessage tid
                           (0 \<le>s millisecondsToRunFor) w1;
              dispatchLoop handleMessage tid millisecondsToRunFor endTime w2
            }
       else do {
              this \<leftarrow> instance' w1;
              Some (\<not> quitMessageReceived this, w1)
            }
     }"

definition runDispatchLoopUntil ::
  "'u handler \<Rightarrow> ThreadID \<Rightarrow> 32 word \<Rightarrow> 'u world \<Rightarrow> (bool \<times> 'u world) option" where
  "runDispatchLoopUntil handleMessage tid millisecondsToRunFor w =
     (case Time_currentTimeMillis w of
        (now, w1) \<Rightarrow>
          dispatchLoop handleMessage tid millisecondsToRunFor
            (now + signed millisecondsToRunFor) w1)"

definition runDispatchLoop :: "'u handler \<Rightarrow> ThreadID \<Rightarrow> 'u world \<Rightarrow> 'u world option" where
  "runDispatchLoop handleMessage tid w =
     map_option snd (runDispatchLoopUntil handleMessage tid (- 1) w)"

definition stopDispatchLoop :: "ptr \<Rightarrow> 'u world \<Rightarrow> 'u world option" where
  "stopDispatchLoop p w =
     do {
       _ \<leftarrow> instance' w;
       w1 \<leftarrow> new_Message p ((Message_ctor quitMessageId 0 0 0)\<lparr>messageRecipient := 0\<rparr>) w;
       w2 \<leftarrow> postMessageToQueue p w1;
       this \<leftarrow> instance' w2;
       Some (w2\<lparr>instance' := Some (this\<lparr>quitMessagePosted := True\<rparr>)\<rparr>)
     }"

subsection \<open>Broadcast listeners\<close>

text \<open>
  The class \<^verbatim>\<open>ActionListenerList\<close> is not part of the file: the list is a list of
  listener pointers, and its three operations are the arguments \<open>addActionListener\<close>,
  \<open>removeActionListener\<close> and \<open>sendActionMessage\<close>, the last one working on the state
  of the application as the message handlers do.
\<close>

definition deliverBroadcastMessage ::
  "(string \<Rightarrow> ptr list \<Rightarrow> 'u \<Rightarrow> 'u) \<Rightarrow> string \<Rightarrow> 'u world \<Rightarrow> 'u world option" where
  "deliverBroadcastMessage sendActionMessage value' w =
     (case instance' w of
        None \<Rightarrow> None
      | Some this \<Rightarrow>
          (case broadcastListeners this of
             None \<Rightarrow> Some w
           | Some listeners \<Rightarrow> Some (w\<lparr>app := sendActionMessage value' listeners (app w)\<rparr>)))"

definition registerBroadcastListener ::
  "(ptr \<Rightarrow> ptr list \<Rightarrow> ptr list) \<Rightarrow> ptr \<Rightarrow> MessageManager \<Rightarrow> MessageManager" where
  "registerBroadcastListener addActionListener listener this =
     this\<lparr>broadcastListeners :=
            Some (addActionListener listener
                    (case broadcastListeners this of None \<Rightarrow> [] | Some listeners \<Rightarrow> listeners))\<rparr>"

definition deregisterBroadcastListener ::
  "(ptr \<Rightarrow> ptr list \<Rightarrow> ptr list) \<Rightarrow> ptr \<Rightarrow> MessageManager \<Rightarrow> MessageManager" where
  "deregisterBroadcastListener removeActionListener listener this =
     (case broadcastListeners this of
        None \<Rightarrow> this
      | Some listeners \<Rightarrow>
          this\<lparr>broadcastListeners := Some (removeActionListener listener listeners)\<rparr>)"

subsection \<open>Observations\<close>

text \<open>The quit message has been received by the message manager that exists.\<close>

definition quitReceived :: "'u world \<Rightarrow> bool" where
  "quitReceived w = (case instance' w of None \<Rightarrow> False | Some this \<Rightarrow> quitMessageReceived this)"

subsection \<open>Sample states\<close>

text \<open>
  States on which the theorems below are instantiated: no message manager yet; a
  message manager created by thread 1; the same while thread 2 holds the lock and the
  \<^verbatim>\<open>Thread\<close> object 5 has been asked to exit.
\<close>

definition empty_world :: "nat world" where
  "empty_world =
     \<lparr> instance' = None, heap = Map.empty, systemQueue = [], queueCapacity = 2,
       timeSource = of_nat, timeCalls = 0, exitSignalled = {}, app = 0, trace = [] \<rparr>"

definition sample_manager :: MessageManager where
  "sample_manager = MessageManager_ctor 1"

definition sample_world :: "nat world" where
  "sample_world = empty_world\<lparr>instance' := Some sample_manager\<rparr>"

definition held_manager :: MessageManager where
  "held_manager = sample_manager\<lparr>messageDispatchLock := Some 2, currentLockingThreadId := 2\<rparr>"

definition contended_world :: "nat world" where
  "contended_world = empty_world\<lparr>instance' := Some held_manager, exitSignalled := {5}\<rparr>"

text \<open>
  A message manager whose \<^verbatim>\<open>currentLockingThreadId\<close> names thread 2 while its mutex is
  free: the state an inner lock finds.
\<close>

definition inner_manager :: MessageManager where
  "inner_manager = sample_manager\<lparr>currentLockingThreadId := 2\<rparr>"

definition inner_world :: "nat world" where
  "inner_world = empty_world\<lparr>instance' := Some inner_manager\<rparr>"

text \<open>
  A message manager with the listener 7 registered, and three live messages: one for
  the listener 7, the quit message, and one for the unknown recipient 8. A handler that
  counts its calls, and one that counts and throws.
\<close>

definition listening_manager :: MessageManager where
  "listening_manager = sample_manager\<lparr>messageListeners := {7}\<rparr>"

definition to_listener :: Message where
  "to_listener = (Message_ctor 1 2 3 0)\<lparr>messageRecipient := 7\<rparr>"

definition quit_message :: Message where
  "quit_message = (Message_ctor quitMessageId 0 0 0)\<lparr>messageRecipient := 0\<rparr>"

definition to_stranger :: Message where
  "to_stranger = (Message_ctor 1 2 3 0)\<lparr>messageRecipient := 8\<rparr>"

definition mail_world :: "nat world" where
  "mail_world =
     empty_world\<lparr>instance' := Some listening_manager,
                 heap := [10 \<mapsto> to_listener, 11 \<mapsto> quit_message, 12 \<mapsto> to_stranger]\<rparr>"

definition counting_handler :: "nat handler" where
  "counting_handler recipient m n = Some (Returned, Suc n)"

definition throwing_handler :: "nat handler" where
  "throwing_handler recipient m n = Some (Threw, Suc n)"

text \<open>The three messages of \<open>mail_world\<close>, two of them already in the system queue.\<close>

definition queued_world :: "nat world" where
  "queued_world = mail_world\<lparr>systemQueue := [10, 11]\<rparr>"

text \<open>
  The quit message has been received while the message for the listener 7 is still in
  the system queue.
\<close>

definition finished_world :: "nat world" where
  "finished_world =
     mail_world\<lparr>instance' := Some (listening_manager\<lparr>quitMessageReceived := True\<rparr>),
                systemQueue := [10]\<rparr>"

section \<open>Theorems\<close>

subsection \<open>The lock and the identity of the calling thread\<close>

lemma sample_world_instance: "instance' sample_world = Some sample_manager"
  by (simp add: sample_world_def)

lemma sample_manager_fields:
  "messageThreadId sample_manager = 1"
  "currentLockingThreadId sample_manager = 0"
  "messageDispatchLock sample_manager = None"
  "quitMessagePosted sample_manager = False"
  "quitMessageReceived sample_manager = False"
  "messageListeners sample_manager = {}"
  by (simp_all add: sample_manager_def MessageManager_ctor_def)

text \<open>
  C1 (as amended). A thread \<open>tid\<close> other than the message thread constructs the blocking
  lock while the message manager exists. If the mutex is free the constructor returns;
  whenever it returns, \<open>locked\<close> is set and, for that thread,
  \<^verbatim>\<open>currentThreadHasLockedMessageManager()\<close> is true while
  \<^verbatim>\<open>isThisTheMessageThread()\<close> is false: the latter compares with
  \<^verbatim>\<open>messageThreadId\<close>, which the lock does not touch.
\<close>

theorem worker_holding_lock:
  assumes "instance' w = Some mm" and "tid \<noteq> messageThreadId mm"
  shows "(messageDispatchLock mm = None \<longrightarrow> MessageManagerLock_ctor tid w \<noteq> None) \<and>
         (\<forall>lock w'. MessageManagerLock_ctor tid w = Some (lock, w') \<longrightarrow>
            locked lock \<and>
            (\<exists>mm'. instance' w' = Some mm' \<and>
               currentThreadHasLockedMessageManager tid mm' \<and>
               \<not> isThisTheMessageThread tid mm'))"
  using assms
  by (auto simp: MessageManagerLock_ctor_def CriticalSection_enter_def
      currentThreadHasLockedMessageManager_def isThisTheMessageThread_def split: option.splits)

theorem worker_holding_lock_witness:
  "MessageManagerLock_ctor 2 sample_world \<noteq> None \<and>
   (\<exists>lock w' mm'. MessageManagerLock_ctor 2 sample_world = Some (lock, w') \<and>
      locked lock \<and> instance' w' = Some mm' \<and>
      currentThreadHasLockedMessageManager 2 mm' \<and> \<not> isThisTheMessageThread 2 mm')"
proof -
  have neq: "2 \<noteq> messageThreadId sample_manager"
    by (simp add: sample_manager_fields)
  from worker_holding_lock [OF sample_world_instance neq]
  show ?thesis
    by (cases "MessageManagerLock_ctor 2 sample_world") (auto simp: sample_manager_fields)
qed

text \<open>
  C1 as the spec states it fails: thread 2 takes the lock of the message manager that
  thread 1 created; it then holds the lock, and \<^verbatim>\<open>isThisTheMessageThread()\<close> is false
  for it.
\<close>

theorem worker_is_not_message_thread:
  "instance' sample_world = Some sample_manager \<and>
   2 \<noteq> messageThreadId sample_manager \<and>
   MessageManagerLock_ctor 2 sample_world =
     Some (\<lparr>lastLockingThreadId = 0, locked = True\<rparr>,
           sample_world\<lparr>instance' := Some held_manager\<rparr>) \<and>
   currentThreadHasLockedMessageManager 2 held_manager \<and>
   \<not> isThisTheMessageThread 2 held_manager"
  by (simp add: sample_world_def held_manager_def sample_manager_fields
      MessageManagerLock_ctor_def CriticalSection_enter_def
      currentThreadHasLockedMessageManager_def isThisTheMessageThread_def)

text \<open>
  C6. While the message manager exists: the blocking constructor returns when the mutex
  is free and waits while it is held; whenever it returns, whatever the state it started
  from, \<open>locked\<close> is set, \<^verbatim>\<open>lastLockingThreadId\<close> is the \<^verbatim>\<open>currentLockingThreadId\<close> of
  before the construction, and nothing but the owner of the mutex and
  \<^verbatim>\<open>currentLockingThreadId\<close> has changed; the destructor run on the state the
  constructor left gives back exactly
  the state before the construction; run on any later state in which the message manager
  exists it writes the saved id back and leaves the mutex free; and this also holds after
  a second lock has been constructed and destroyed in between, which itself is a round
  trip.
\<close>

theorem lock_round_trip:
  fixes w :: "'u world"
  assumes "instance' w = Some mm"
  shows "(messageDispatchLock mm = None \<longrightarrow> MessageManagerLock_ctor tid w \<noteq> None) \<and>
         (messageDispatchLock mm \<noteq> None \<longrightarrow> MessageManagerLock_ctor tid w = None) \<and>
         (\<forall>lock w1. MessageManagerLock_ctor tid w = Some (lock, w1) \<longrightarrow>
            locked lock \<and>
            lastLockingThreadId lock = currentLockingThreadId mm \<and>
            instance' w1 =
              Some (mm\<lparr>messageDispatchLock := Some tid, currentLockingThreadId := tid\<rparr>) \<and>
            w1 = w\<lparr>instance' :=
                      Some (mm\<lparr>messageDispatchLock := Some tid, currentLockingThreadId := tid\<rparr>)\<rparr> \<and>
            MessageManagerLock_dtor lock w1 = w \<and>
            (\<forall>(w2::'u world) mm2. instance' w2 = Some mm2 \<longrightarrow>
               MessageManagerLock_dtor lock w2 =
                 w2\<lparr>instance' :=
                      Some (mm2\<lparr>currentLockingThreadId := currentLockingThreadId mm,
                                messageDispatchLock := None\<rparr>)\<rparr>) \<and>
            (\<forall>(v::'u world) mv tid2 lock2 v1.
               instance' v = Some mv \<and> MessageManagerLock_ctor tid2 v = Some (lock2, v1) \<longrightarrow>
                 lastLockingThreadId lock2 = currentLockingThreadId mv \<and>
                 MessageManagerLock_dtor lock2 v1 = v \<and>
                 instance' (MessageManagerLock_dtor lock (MessageManagerLock_dtor lock2 v1)) =
                   Some (mv\<lparr>currentLockingThreadId := currentLockingThreadId mm,
                             messageDispatchLock := None\<rparr>)))"
proof -
  have trip: "locked lock \<and>
      lastLockingThreadId lock = currentLockingThreadId m \<and>
      instance' u1 =
        Some (m\<lparr>messageDispatchLock := Some t, currentLockingThreadId := t\<rparr>) \<and>
      u1 = u\<lparr>instance' :=
               Some (m\<lparr>messageDispatchLock := Some t, currentLockingThreadId := t\<rparr>)\<rparr> \<and>
      MessageManagerLock_dtor lock u1 = u"
    if "instance' u = Some m" and "MessageManagerLock_ctor t u = Some (lock, u1)"
    for u u1 :: "'u world" and m t lock
    using that
    by (auto simp: MessageManagerLock_ctor_def CriticalSection_enter_def
        MessageManagerLock_dtor_def CriticalSection_exit_def split: option.splits)
  have written: "MessageManagerLock_dtor lock w2 =
      w2\<lparr>instance' :=
           Some (mm2\<lparr>currentLockingThreadId := lastLockingThreadId lock,
                     messageDispatchLock := None\<rparr>)\<rparr>"
    if "locked lock" and "instance' w2 = Some mm2" for w2 :: "'u world" and mm2 lock
    using that by (simp add: MessageManagerLock_dtor_def CriticalSection_exit_def)
  have free: "messageDispatchLock mm = None \<longrightarrow> MessageManagerLock_ctor tid w \<noteq> None"
    using assms by (simp add: MessageManagerLock_ctor_def CriticalSection_enter_def)
  have held: "messageDispatchLock mm \<noteq> None \<longrightarrow> MessageManagerLock_ctor tid w = None"
    using assms
    by (auto simp: MessageManagerLock_ctor_def CriticalSection_enter_def split: option.splits)
  have returned: "locked lock \<and>
      lastLockingThreadId lock = currentLockingThreadId mm \<and>
      instance' w1 =
        Some (mm\<lparr>messageDispatchLock := Some tid, currentLockingThreadId := tid\<rparr>) \<and>
      w1 = w\<lparr>instance' :=
                Some (mm\<lparr>messageDispatchLock := Some tid, currentLockingThreadId := tid\<rparr>)\<rparr> \<and>
      MessageManagerLock_dtor lock w1 = w \<and>
      (\<forall>(w2::'u world) mm2. instance' w2 = Some mm2 \<longrightarrow>
         MessageManagerLock_dtor lock w2 =
           w2\<lparr>instance' :=
                Some (mm2\<lparr>currentLockingThreadId := currentLockingThreadId mm,
                          messageDispatchLock := None\<rparr>)\<rparr>) \<and>
      (\<forall>(v::'u world) mv tid2 lock2 v1.
         instance' v = Some mv \<and> MessageManagerLock_ctor tid2 v = Some (lock2, v1) \<longrightarrow>
           lastLockingThreadId lock2 = currentLockingThreadId mv \<and>
           MessageManagerLock_dtor lock2 v1 = v \<and>
           instance' (MessageManagerLock_dtor lock (MessageManagerLock_dtor lock2 v1)) =
             Some (mv\<lparr>currentLockingThreadId := currentLockingThreadId mm,
                       messageDispatchLock := None\<rparr>))"
    if r: "MessageManagerLock_ctor tid w = Some (lock, w1)" for lock w1
  proof -
    note outer = trip [OF assms r]
    have later: "MessageManagerLock_dtor lock w2 =
        w2\<lparr>instance' :=
             Some (mm2\<lparr>currentLockingThreadId := currentLockingThreadId mm,
                       messageDispatchLock := None\<rparr>)\<rparr>"
      if "instance' w2 = Some mm2" for w2 :: "'u world" and mm2
      using written [of lock w2 mm2] outer that by simp
    have nested: "lastLockingThreadId lock2 = currentLockingThreadId mv \<and>
        MessageManagerLock_dtor lock2 v1 = v \<and>
        instance' (MessageManagerLock_dtor lock (MessageManagerLock_dtor lock2 v1)) =
          Some (mv\<lparr>currentLockingThreadId := currentLockingThreadId mm,
                    messageDispatchLock := None\<rparr>)"
      if "instance' v = Some mv \<and> MessageManagerLock_ctor tid2 v = Some (lock2, v1)"
      for v v1 :: "'u world" and mv tid2 lock2
    proof -
      from that have i: "instance' v = Some mv"
        and c: "MessageManagerLock_ctor tid2 v = Some (lock2, v1)"
        by simp_all
      note inner = trip [OF i c]
      from inner have l2: "lastLockingThreadId lock2 = currentLockingThreadId mv"
        and d2: "MessageManagerLock_dtor lock2 v1 = v"
        by blast+
      from later [OF i] have "instance' (MessageManagerLock_dtor lock v) =
          Some (mv\<lparr>currentLockingThreadId := currentLockingThreadId mm,
                    messageDispatchLock := None\<rparr>)"
        by simp
      with d2 have n2: "instance' (MessageManagerLock_dtor lock (MessageManagerLock_dtor lock2 v1)) =
          Some (mv\<lparr>currentLockingThreadId := currentLockingThreadId mm,
                    messageDispatchLock := None\<rparr>)"
        by simp
      show ?thesis
        by (intro conjI) (rule l2 d2 n2)+
    qed
    from outer later nested show ?thesis
      by blast
  qed
  from free held returned show ?thesis
    by blast
qed

theorem lock_round_trip_witness:
  "MessageManagerLock_ctor 2 sample_world =
     Some (\<lparr>lastLockingThreadId = 0, locked = True\<rparr>,
           sample_world\<lparr>instance' := Some held_manager\<rparr>) \<and>
   MessageManagerLock_dtor \<lparr>lastLockingThreadId = 0, locked = True\<rparr>
       (sample_world\<lparr>instance' := Some held_manager\<rparr>) = sample_world \<and>
   MessageManagerLock_ctor 3 inner_world =
     Some (\<lparr>lastLockingThreadId = 2, locked = True\<rparr>,
           inner_world\<lparr>instance' := Some (inner_manager\<lparr>messageDispatchLock := Some 3,
                                                         currentLockingThreadId := 3\<rparr>)\<rparr>) \<and>
   MessageManagerLock_dtor \<lparr>lastLockingThreadId = 2, locked = True\<rparr>
       (inner_world\<lparr>instance' := Some (inner_manager\<lparr>messageDispatchLock := Some 3,
                                                     currentLockingThreadId := 3\<rparr>)\<rparr>) =
     inner_world \<and>
   instance' (MessageManagerLock_dtor \<lparr>lastLockingThreadId = 0, locked = True\<rparr>
                (MessageManagerLock_dtor \<lparr>lastLockingThreadId = 2, locked = True\<rparr>
                   (inner_world\<lparr>instance' := Some (inner_manager\<lparr>messageDispatchLock := Some 3,
                                                                 currentLockingThreadId := 3\<rparr>)\<rparr>))) =
     Some sample_manager \<and>
   MessageManagerLock_ctor 3 contended_world = None"
proof -
  let ?outer = "\<lparr>lastLockingThreadId = 0, locked = True\<rparr>"
  let ?inner = "\<lparr>lastLockingThreadId = 2, locked = True\<rparr>"
  let ?w1 = "sample_world\<lparr>instance' := Some held_manager\<rparr>"
  let ?v1 = "inner_world\<lparr>instance' := Some (inner_manager\<lparr>messageDispatchLock := Some 3,
                                                           currentLockingThreadId := 3\<rparr>)\<rparr>"
  have ii: "instance' inner_world = Some inner_manager"
    by (simp add: inner_world_def)
  have im: "currentLockingThreadId inner_manager = 2" "messageDispatchLock inner_manager = None"
    by (simp_all add: inner_manager_def sample_manager_fields)
  have a: "MessageManagerLock_ctor 2 sample_world = Some (?outer, ?w1)"
    by (simp add: MessageManagerLock_ctor_def CriticalSection_enter_def sample_world_instance
        sample_manager_fields held_manager_def)
  have b: "MessageManagerLock_ctor 3 inner_world = Some (?inner, ?v1)"
    by (simp add: MessageManagerLock_ctor_def CriticalSection_enter_def ii im)
  note outer = lock_round_trip
    [OF sample_world_instance, of 2, THEN conjunct2, THEN conjunct2, rule_format, OF a]
  from outer have 1: "MessageManagerLock_dtor ?outer ?w1 = sample_world"
    by blast
  from outer ii b
  have n: "MessageManagerLock_dtor ?inner ?v1 = inner_world \<and>
           instance' (MessageManagerLock_dtor ?outer (MessageManagerLock_dtor ?inner ?v1)) =
             Some (inner_manager\<lparr>currentLockingThreadId := currentLockingThreadId sample_manager,
                                 messageDispatchLock := None\<rparr>)"
    by blast
  have s: "inner_manager\<lparr>currentLockingThreadId := currentLockingThreadId sample_manager,
                          messageDispatchLock := None\<rparr> = sample_manager"
    by (simp add: inner_manager_def sample_manager_def MessageManager_ctor_def)
  have ci: "instance' contended_world = Some held_manager"
    by (simp add: contended_world_def)
  have h: "messageDispatchLock held_manager \<noteq> None"
    by (simp add: held_manager_def)
  have 4: "MessageManagerLock_ctor 3 contended_world = None"
    using h by (auto simp: MessageManagerLock_ctor_def CriticalSection_enter_def ci
        split: option.splits)
  from n have n1: "MessageManagerLock_dtor ?inner ?v1 = inner_world"
    by blast
  from n have "instance' (MessageManagerLock_dtor ?outer (MessageManagerLock_dtor ?inner ?v1)) =
      Some (inner_manager\<lparr>currentLockingThreadId := currentLockingThreadId sample_manager,
                          messageDispatchLock := None\<rparr>)"
    by blast
  then have n2: "instance' (MessageManagerLock_dtor ?outer (MessageManagerLock_dtor ?inner ?v1)) =
      Some sample_manager"
    by (simp only: s)
  show ?thesis
    by (intro conjI) (rule a 1 b n1 n2 4)+
qed

text \<open>
  C7. In the constructor that takes a \<^verbatim>\<open>Thread*\<close>: at any round of the polling loop
  at which the mutex is held (so \<^verbatim>\<open>tryEnter\<close> fails) and the thread's
  \<^verbatim>\<open>threadShouldExit()\<close> is true, the constructor returns with \<open>locked\<close> false and
  the state as it found it, so \<^verbatim>\<open>currentLockingThreadId\<close> and the owner of the mutex
  are unchanged; the destructor of that lock changes no state.
\<close>

theorem cancelled_lock:
  fixes w :: "'u world"
  assumes "instance' w = Some mm" and "messageDispatchLock mm \<noteq> None"
    and "thread \<noteq> 0" and "threadShouldExit thread w"
  shows "MessageManagerLock_poll sleep thread tid junk i w =
           Some (\<lparr>lastLockingThreadId = junk, locked = False\<rparr>, w) \<and>
         MessageManagerLock_ctor_Thread sleep thread tid junk w =
           Some (\<lparr>lastLockingThreadId = junk, locked = False\<rparr>, w) \<and>
         (\<forall>w2::'u world. MessageManagerLock_dtor \<lparr>lastLockingThreadId = junk, locked = False\<rparr> w2 = w2)"
proof -
  have p: "MessageManagerLock_poll sleep thread tid junk k w =
             Some (\<lparr>lastLockingThreadId = junk, locked = False\<rparr>, w)" for k
    using assms
    by (subst MessageManagerLock_poll.simps)
       (auto simp: CriticalSection_tryEnter_def split: option.splits)
  show ?thesis
    using assms(1) p
    by (simp add: MessageManagerLock_ctor_Thread_def MessageManagerLock_dtor_def)
qed

theorem cancelled_lock_witness:
  "MessageManagerLock_ctor_Thread (\<lambda>i. id) 5 3 9 contended_world =
     Some (\<lparr>lastLockingThreadId = 9, locked = False\<rparr>, contended_world) \<and>
   instance' contended_world = Some held_manager \<and>
   messageDispatchLock held_manager = Some 2 \<and>
   MessageManagerLock_dtor \<lparr>lastLockingThreadId = 9, locked = False\<rparr> contended_world =
     contended_world"
proof -
  have i: "instance' contended_world = Some held_manager"
    by (simp add: contended_world_def)
  have h: "messageDispatchLock held_manager \<noteq> None"
    by (simp add: held_manager_def)
  have t: "(5::nat) \<noteq> 0"
    by simp
  have e: "threadShouldExit 5 contended_world"
    by (simp add: threadShouldExit_def contended_world_def)
  from cancelled_lock [OF i h t e, of "\<lambda>i. id" 3 9 0] i
  show ?thesis
    by (simp add: held_manager_def)
qed

text \<open>
  C9. When \<^verbatim>\<open>MessageManager::instance\<close> is null, either constructor returns at once
  with \<open>locked\<close> false and the state unchanged, and the destructor of such a lock
  changes no state, whatever the state is by then.
\<close>

theorem lock_without_instance:
  fixes w :: "'u world"
  assumes "instance' w = None"
  shows "MessageManagerLock_ctor tid w = Some (\<lparr>lastLockingThreadId = 0, locked = False\<rparr>, w) \<and>
         MessageManagerLock_ctor_Thread sleep thread tid junk w =
           Some (\<lparr>lastLockingThreadId = junk, locked = False\<rparr>, w) \<and>
         (\<forall>w2::'u world. MessageManagerLock_dtor \<lparr>lastLockingThreadId = 0, locked = False\<rparr> w2 = w2) \<and>
         (\<forall>w2::'u world. MessageManagerLock_dtor \<lparr>lastLockingThreadId = junk, locked = False\<rparr> w2 = w2)"
  using assms
  by (simp add: MessageManagerLock_ctor_def MessageManagerLock_ctor_Thread_def
      MessageManagerLock_dtor_def)

theorem lock_without_instance_witness:
  "MessageManagerLock_ctor 2 empty_world =
     Some (\<lparr>lastLockingThreadId = 0, locked = False\<rparr>, empty_world) \<and>
   MessageManagerLock_ctor_Thread (\<lambda>i. id) 5 2 9 empty_world =
     Some (\<lparr>lastLockingThreadId = 9, locked = False\<rparr>, empty_world) \<and>
   MessageManagerLock_dtor \<lparr>lastLockingThreadId = 0, locked = False\<rparr> sample_world = sample_world \<and>
   MessageManagerLock_dtor \<lparr>lastLockingThreadId = 9, locked = False\<rparr> sample_world = sample_world"
proof -
  have n: "instance' empty_world = None"
    by (simp add: empty_world_def)
  from lock_without_instance [OF n, of 2 "\<lambda>i. id" 5 9]
  show ?thesis
    by simp
qed

text \<open>
  C10. The destructor writes \<^verbatim>\<open>lastLockingThreadId\<close> back and frees the mutex exactly
  when \<open>locked\<close> is true and \<^verbatim>\<open>MessageManager::instance\<close> is not null at that moment;
  otherwise it changes nothing. In particular, when the message manager is destroyed
  between a successful construction of the lock and its destruction, the destructor
  leaves the state as the destruction of the message manager left it.
\<close>

theorem dtor_needs_instance:
  "(\<forall>mm. locked lock \<and> instance' w = Some mm \<longrightarrow>
      MessageManagerLock_dtor lock w =
        w\<lparr>instance' := Some (mm\<lparr>currentLockingThreadId := lastLockingThreadId lock,
                                  messageDispatchLock := None\<rparr>)\<rparr>) \<and>
   (\<not> locked lock \<or> instance' w = None \<longrightarrow> MessageManagerLock_dtor lock w = w) \<and>
   (\<forall>mm tid lock1 w1 shutdown.
      instance' w = Some mm \<and> MessageManagerLock_ctor tid w = Some (lock1, w1) \<longrightarrow>
        locked lock1 \<and>
        instance' (MessageManager_dtor shutdown w1) = None \<and>
        MessageManagerLock_dtor lock1 (MessageManager_dtor shutdown w1) =
          MessageManager_dtor shutdown w1)"
  by (auto simp: MessageManagerLock_dtor_def CriticalSection_exit_def MessageManager_dtor_def
      MessageManagerLock_ctor_def CriticalSection_enter_def split: option.splits)

theorem dtor_needs_instance_witness:
  "MessageManagerLock_dtor \<lparr>lastLockingThreadId = 0, locked = True\<rparr> contended_world =
     contended_world\<lparr>instance' := Some (held_manager\<lparr>currentLockingThreadId := 0,
                                                     messageDispatchLock := None\<rparr>)\<rparr> \<and>
   MessageManagerLock_dtor \<lparr>lastLockingThreadId = 0, locked = True\<rparr> empty_world = empty_world \<and>
   MessageManagerLock_ctor 2 sample_world =
     Some (\<lparr>lastLockingThreadId = 0, locked = True\<rparr>,
           sample_world\<lparr>instance' := Some held_manager\<rparr>) \<and>
   MessageManagerLock_dtor \<lparr>lastLockingThreadId = 0, locked = True\<rparr>
       (MessageManager_dtor id (sample_world\<lparr>instance' := Some held_manager\<rparr>)) =
     MessageManager_dtor id (sample_world\<lparr>instance' := Some held_manager\<rparr>)"
proof -
  let ?lock = "\<lparr>lastLockingThreadId = 0, locked = True\<rparr>"
  have c: "instance' contended_world = Some held_manager"
    by (simp add: contended_world_def)
  have n: "instance' empty_world = None"
    by (simp add: empty_world_def)
  have k: "MessageManagerLock_ctor 2 sample_world =
             Some (?lock, sample_world\<lparr>instance' := Some held_manager\<rparr>)"
    by (simp add: MessageManagerLock_ctor_def CriticalSection_enter_def sample_world_instance
        sample_manager_fields held_manager_def)
  from dtor_needs_instance [of ?lock contended_world] c
  have 1: "MessageManagerLock_dtor ?lock contended_world =
             contended_world\<lparr>instance' := Some (held_manager\<lparr>currentLockingThreadId := 0,
                                                             messageDispatchLock := None\<rparr>)\<rparr>"
    by simp
  from dtor_needs_instance [of ?lock empty_world] n
  have 2: "MessageManagerLock_dtor ?lock empty_world = empty_world"
    by simp
  from dtor_needs_instance [of ?lock sample_world] sample_world_instance k
  have 3: "MessageManagerLock_dtor ?lock
               (MessageManager_dtor id (sample_world\<lparr>instance' := Some held_manager\<rparr>)) =
             MessageManager_dtor id (sample_world\<lparr>instance' := Some held_manager\<rparr>)"
    by blast
  from 1 2 k 3 show ?thesis
    by simp
qed

subsection \<open>Posting, stopping and delivering\<close>

lemma mail_world_instance: "instance' mail_world = Some listening_manager"
  by (simp add: mail_world_def)

lemma listening_manager_fields:
  "messageThreadId listening_manager = 1"
  "currentLockingThreadId listening_manager = 0"
  "messageDispatchLock listening_manager = None"
  "quitMessagePosted listening_manager = False"
  "quitMessageReceived listening_manager = False"
  "messageListeners listening_manager = {7}"
  by (simp_all add: listening_manager_def sample_manager_def MessageManager_ctor_def)

lemma mail_world_messages:
  "Message_at 10 mail_world = Some to_listener"
  "Message_at 11 mail_world = Some quit_message"
  "Message_at 12 mail_world = Some to_stranger"
  by (simp_all add: mail_world_def Message_at_def)

text \<open>
  C5. \<^verbatim>\<open>postMessageToQueue\<close> on a live message, while the message manager exists:
  if \<^verbatim>\<open>quitMessagePosted\<close> is set the message is deleted at once and the platform
  function is not called; if the platform function returns false the message is deleted
  right after that call; otherwise the message stays alive and is the last entry of the
  system queue. In each case the call returns, and it returns the new state only: there
  is no result and no error for the caller.
\<close>

theorem post_destroys_or_enqueues:
  fixes w :: "'u world"
  assumes "instance' w = Some mm" and "Message_at message w = Some m"
  shows "(quitMessagePosted mm \<longrightarrow>
            postMessageToQueue message w =
              Some (w\<lparr>heap := (heap w)(message := None),
                      trace := trace w @ [DeleteMessage message]\<rparr>)) \<and>
         (\<not> quitMessagePosted mm \<and> \<not> fst (juce_postMessageToSystemQueue message w) \<longrightarrow>
            postMessageToQueue message w =
              Some (w\<lparr>heap := (heap w)(message := None),
                      trace := trace w @ [PostToSystemQueue message False,
                                          DeleteMessage message]\<rparr>)) \<and>
         (\<not> quitMessagePosted mm \<and> fst (juce_postMessageToSystemQueue message w) \<longrightarrow>
            postMessageToQueue message w =
              Some (w\<lparr>systemQueue := systemQueue w @ [message],
                      trace := trace w @ [PostToSystemQueue message True]\<rparr>)) \<and>
         postMessageToQueue message w \<noteq> None"
  using assms
  by (auto simp: postMessageToQueue_def juce_postMessageToSystemQueue_def Let_def
      delete_Message_def Message_at_def split: if_splits)

theorem post_destroys_or_enqueues_witness:
  "postMessageToQueue 10 mail_world =
     Some (mail_world\<lparr>systemQueue := systemQueue mail_world @ [10],
                      trace := trace mail_world @ [PostToSystemQueue 10 True]\<rparr>) \<and>
   postMessageToQueue 10 (mail_world\<lparr>queueCapacity := 0\<rparr>) =
     Some (mail_world\<lparr>queueCapacity := 0,
                      heap := (heap mail_world)(10 := None),
                      trace := trace mail_world @ [PostToSystemQueue 10 False,
                                                   DeleteMessage 10]\<rparr>) \<and>
   postMessageToQueue 10
       (mail_world\<lparr>instance' := Some (listening_manager\<lparr>quitMessagePosted := True\<rparr>)\<rparr>) =
     Some (mail_world\<lparr>instance' := Some (listening_manager\<lparr>quitMessagePosted := True\<rparr>),
                      heap := (heap mail_world)(10 := None),
                      trace := trace mail_world @ [DeleteMessage 10]\<rparr>)"
proof -
  let ?full = "mail_world\<lparr>queueCapacity := 0\<rparr>"
  let ?quit = "mail_world\<lparr>instance' := Some (listening_manager\<lparr>quitMessagePosted := True\<rparr>)\<rparr>"
  have a: "fst (juce_postMessageToSystemQueue 10 mail_world)"
    by (simp add: juce_postMessageToSystemQueue_def mail_world_def empty_world_def)
  have 1: "postMessageToQueue 10 mail_world =
             Some (mail_world\<lparr>systemQueue := systemQueue mail_world @ [10],
                              trace := trace mail_world @ [PostToSystemQueue 10 True]\<rparr>)"
    using post_destroys_or_enqueues [OF mail_world_instance mail_world_messages(1)] a
    by (simp add: listening_manager_fields)
  have fi: "instance' ?full = Some listening_manager"
    by (simp add: mail_world_def)
  have fm: "Message_at 10 ?full = Some to_listener"
    by (simp add: mail_world_def Message_at_def)
  have fa: "\<not> fst (juce_postMessageToSystemQueue 10 ?full)"
    by (simp add: juce_postMessageToSystemQueue_def)
  have 2: "postMessageToQueue 10 ?full =
             Some (?full\<lparr>heap := (heap ?full)(10 := None),
                         trace := trace ?full @ [PostToSystemQueue 10 False, DeleteMessage 10]\<rparr>)"
    using post_destroys_or_enqueues [OF fi fm] fa
    by (simp add: listening_manager_fields)
  have qi: "instance' ?quit = Some (listening_manager\<lparr>quitMessagePosted := True\<rparr>)"
    by simp
  have qm: "Message_at 10 ?quit = Some to_listener"
    by (simp add: mail_world_def Message_at_def)
  have 3: "postMessageToQueue 10 ?quit =
             Some (?quit\<lparr>heap := (heap ?quit)(10 := None),
                         trace := trace ?quit @ [DeleteMessage 10]\<rparr>)"
    using post_destroys_or_enqueues [OF qi qm]
    by simp
  from 1 2 3 show ?thesis
    by simp
qed

text \<open>
  C4. \<^verbatim>\<open>stopDispatchLoop\<close>, with \<open>p\<close> the address of the new message: the message has
  a null recipient and the tag \<open>0xfffff321\<close>; \<^verbatim>\<open>postMessageToQueue\<close> runs on the state
  in which \<^verbatim>\<open>quitMessagePosted\<close> still has its value on entry, and the flag is set on the
  state that call returns. So when the flag was false on entry the message is offered to
  the platform function (and is queued when that accepts it); when the flag was already
  set, the quit check of \<^verbatim>\<open>postMessageToQueue\<close> deletes the message without offering it.
\<close>

theorem stop_posts_then_flags:
  fixes w :: "'u world"
  assumes "instance' w = Some mm" and "p \<noteq> 0" and "heap w p = None"
  shows "messageRecipient ((Message_ctor quitMessageId 0 0 0)\<lparr>messageRecipient := 0\<rparr>) = 0 \<and>
         intParameter1 ((Message_ctor quitMessageId 0 0 0)\<lparr>messageRecipient := 0\<rparr>) = 0xfffff321 \<and>
         stopDispatchLoop p w =
           map_option (\<lambda>w2. w2\<lparr>instance' := Some (mm\<lparr>quitMessagePosted := True\<rparr>)\<rparr>)
             (postMessageToQueue p
                (w\<lparr>heap := (heap w)(p \<mapsto>
                       (Message_ctor quitMessageId 0 0 0)\<lparr>messageRecipient := 0\<rparr>)\<rparr>)) \<and>
         (\<not> quitMessagePosted mm \<and> fst (juce_postMessageToSystemQueue p w) \<longrightarrow>
            stopDispatchLoop p w =
              Some (w\<lparr>instance' := Some (mm\<lparr>quitMessagePosted := True\<rparr>),
                      heap := (heap w)(p \<mapsto>
                        (Message_ctor quitMessageId 0 0 0)\<lparr>messageRecipient := 0\<rparr>),
                      systemQueue := systemQueue w @ [p],
                      trace := trace w @ [PostToSystemQueue p True]\<rparr>)) \<and>
         (\<not> quitMessagePosted mm \<and> \<not> fst (juce_postMessageToSystemQueue p w) \<longrightarrow>
            stopDispatchLoop p w =
              Some (w\<lparr>instance' := Some (mm\<lparr>quitMessagePosted := True\<rparr>),
                      trace := trace w @ [PostToSystemQueue p False, DeleteMessage p]\<rparr>)) \<and>
         (quitMessagePosted mm \<longrightarrow>
            stopDispatchLoop p w = Some (w\<lparr>trace := trace w @ [DeleteMessage p]\<rparr>))"
  using assms
  by (auto simp: stopDispatchLoop_def new_Message_def postMessageToQueue_def
      juce_postMessageToSystemQueue_def Let_def delete_Message_def Message_ctor_def
      quitMessageId_def fun_upd_idem split: if_splits)

theorem stop_posts_then_flags_witness:
  "stopDispatchLoop 20 mail_world =
     Some (mail_world\<lparr>instance' := Some (listening_manager\<lparr>quitMessagePosted := True\<rparr>),
                      heap := (heap mail_world)(20 \<mapsto> quit_message),
                      systemQueue := systemQueue mail_world @ [20],
                      trace := trace mail_world @ [PostToSystemQueue 20 True]\<rparr>) \<and>
   stopDispatchLoop 20
       (mail_world\<lparr>instance' := Some (listening_manager\<lparr>quitMessagePosted := True\<rparr>)\<rparr>) =
     Some (mail_world\<lparr>instance' := Some (listening_manager\<lparr>quitMessagePosted := True\<rparr>),
                      trace := trace mail_world @ [DeleteMessage 20]\<rparr>)"
proof -
  let ?quit = "mail_world\<lparr>instance' := Some (listening_manager\<lparr>quitMessagePosted := True\<rparr>)\<rparr>"
  have n: "(20::nat) \<noteq> 0"
    by simp
  have f: "heap mail_world 20 = None"
    by (simp add: mail_world_def)
  have a: "fst (juce_postMessageToSystemQueue 20 mail_world)"
    by (simp add: juce_postMessageToSystemQueue_def mail_world_def empty_world_def)
  have c: "\<not> quitMessagePosted listening_manager \<and> fst (juce_postMessageToSystemQueue 20 mail_world)"
    using a by (simp add: listening_manager_fields)
  from stop_posts_then_flags [OF mail_world_instance n f] c
  have "stopDispatchLoop 20 mail_world =
          Some (mail_world\<lparr>instance' := Some (listening_manager\<lparr>quitMessagePosted := True\<rparr>),
                  heap := (heap mail_world)(20 \<mapsto>
                    (Message_ctor quitMessageId 0 0 0)\<lparr>messageRecipient := 0\<rparr>),
                  systemQueue := systemQueue mail_world @ [20],
                  trace := trace mail_world @ [PostToSystemQueue 20 True]\<rparr>)"
    by blast
  then have 1: "stopDispatchLoop 20 mail_world =
             Some (mail_world\<lparr>instance' := Some (listening_manager\<lparr>quitMessagePosted := True\<rparr>),
                              heap := (heap mail_world)(20 \<mapsto> quit_message),
                              systemQueue := systemQueue mail_world @ [20],
                              trace := trace mail_world @ [PostToSystemQueue 20 True]\<rparr>)"
    by (simp add: quit_message_def)
  have qi: "instance' ?quit = Some (listening_manager\<lparr>quitMessagePosted := True\<rparr>)"
    by simp
  have qf: "heap ?quit 20 = None"
    by (simp add: mail_world_def)
  have qq: "quitMessagePosted (listening_manager\<lparr>quitMessagePosted := True\<rparr>)"
    by simp
  from stop_posts_then_flags [OF qi n qf] qq
  have "stopDispatchLoop 20 ?quit = Some (?quit\<lparr>trace := trace ?quit @ [DeleteMessage 20]\<rparr>)"
    by blast
  then have 2: "stopDispatchLoop 20 ?quit =
                  Some (mail_world\<lparr>instance' := Some (listening_manager\<lparr>quitMessagePosted := True\<rparr>),
                                   trace := trace mail_world @ [DeleteMessage 20]\<rparr>)"
    by simp
  from 1 2 show ?thesis
    by simp
qed

lemma deliver_listener:
  fixes w :: "'u world"
  assumes "instance' w = Some mm" and "messageDispatchLock mm = None"
    and "Message_at message w = Some m" and "messageRecipient m \<in> messageListeners mm"
  shows "deliverMessage h tid message w =
           map_option
             (\<lambda>(c, a). w\<lparr>app := a, heap := (heap w)(message := None),
                         trace := trace w @ HandleMessage (messageRecipient m) message #
                                    (case c of Returned \<Rightarrow> [] | Threw \<Rightarrow> [ExceptionCaught]) @
                                    [DeleteMessage message]\<rparr>)
             (h (messageRecipient m) m (app w))"
  using assms
  by (cases "h (messageRecipient m) m (app w)")
     (auto simp: deliverMessage_def MessageManagerLock_ctor_def CriticalSection_enter_def
       Message_at_def delete_Message_def MessageManagerLock_dtor_def CriticalSection_exit_def
       JUCE_CATCH_EXCEPTION_def split: if_splits completion.splits)

lemma deliver_quit:
  fixes w :: "'u world"
  assumes "instance' w = Some mm" and "messageDispatchLock mm = None"
    and "Message_at message w = Some m" and "messageRecipient m \<notin> messageListeners mm"
    and "messageRecipient m = 0 \<and> intParameter1 m = quitMessageId"
  shows "deliverMessage h tid message w =
           Some (w\<lparr>instance' := Some (mm\<lparr>quitMessageReceived := True\<rparr>),
                   heap := (heap w)(message := None),
                   trace := trace w @ [DeleteMessage message]\<rparr>)"
  using assms
  by (auto simp: deliverMessage_def MessageManagerLock_ctor_def CriticalSection_enter_def
       Message_at_def delete_Message_def MessageManagerLock_dtor_def CriticalSection_exit_def
       split: if_splits)

lemma deliver_dropped:
  fixes w :: "'u world"
  assumes "instance' w = Some mm" and "messageDispatchLock mm = None"
    and "Message_at message w = Some m" and "messageRecipient m \<notin> messageListeners mm"
    and "\<not> (messageRecipient m = 0 \<and> intParameter1 m = quitMessageId)"
  shows "deliverMessage h tid message w =
           Some (w\<lparr>heap := (heap w)(message := None),
                   trace := trace w @ [DeleteMessage message]\<rparr>)"
  using assms
  by (auto simp: deliverMessage_def MessageManagerLock_ctor_def CriticalSection_enter_def
       Message_at_def delete_Message_def MessageManagerLock_dtor_def CriticalSection_exit_def
       split: if_splits)

lemma deliver_Some:
  assumes "deliverMessage h tid message w = Some w'"
  shows "\<exists>mm m. instance' w = Some mm \<and> messageDispatchLock mm = None \<and>
                 Message_at message w = Some m"
  using assms
  by (auto simp: deliverMessage_def MessageManagerLock_ctor_def CriticalSection_enter_def
      Message_at_def bind_eq_Some_conv split: option.splits if_splits)

lemma deliver_cases_free:
  fixes w :: "'u world"
  assumes inst: "instance' w = Some mm" and free: "messageDispatchLock mm = None"
    and live: "Message_at message w = Some m"
  shows "(messageRecipient m \<in> messageListeners mm \<longrightarrow>
            deliverMessage h tid message w =
              map_option
                (\<lambda>(c, a). w\<lparr>app := a, heap := (heap w)(message := None),
                            trace := trace w @ HandleMessage (messageRecipient m) message #
                                       (case c of Returned \<Rightarrow> [] | Threw \<Rightarrow> [ExceptionCaught]) @
                                       [DeleteMessage message]\<rparr>)
                (h (messageRecipient m) m (app w))) \<and>
         (messageRecipient m \<notin> messageListeners mm \<and>
          messageRecipient m = 0 \<and> intParameter1 m = quitMessageId \<longrightarrow>
            deliverMessage h tid message w =
              Some (w\<lparr>instance' := Some (mm\<lparr>quitMessageReceived := True\<rparr>),
                      heap := (heap w)(message := None),
                      trace := trace w @ [DeleteMessage message]\<rparr>)) \<and>
         (messageRecipient m \<notin> messageListeners mm \<and>
          \<not> (messageRecipient m = 0 \<and> intParameter1 m = quitMessageId) \<longrightarrow>
            deliverMessage h tid message w =
              Some (w\<lparr>heap := (heap w)(message := None),
                      trace := trace w @ [DeleteMessage message]\<rparr>)) \<and>
         (\<forall>w'. deliverMessage h tid message w = Some w' \<longrightarrow>
            heap w' message = None \<and>
            count_list (trace w') (DeleteMessage message) =
              Suc (count_list (trace w) (DeleteMessage message))) \<and>
         quitMessageId = 0xfffff321"
proof -
  have once: "heap w' message = None \<and>
              count_list (trace w') (DeleteMessage message) =
                Suc (count_list (trace w) (DeleteMessage message))"
    if r: "deliverMessage h tid message w = Some w'" for w'
  proof (cases "messageRecipient m \<in> messageListeners mm")
    case True
    from r deliver_listener [OF inst free live True, of h tid]
    obtain c a where
      "w' = w\<lparr>app := a, heap := (heap w)(message := None),
                 trace := trace w @ HandleMessage (messageRecipient m) message #
                            (case c of Returned \<Rightarrow> [] | Threw \<Rightarrow> [ExceptionCaught]) @
                            [DeleteMessage message]\<rparr>"
      by auto
    then show ?thesis
      by (cases c) simp_all
  next
    case False
    show ?thesis
    proof (cases "messageRecipient m = 0 \<and> intParameter1 m = quitMessageId")
      case True
      from r deliver_quit [OF inst free live False True, of h tid]
      show ?thesis
        by auto
    next
      case no: False
      from r deliver_dropped [OF inst free live False no, of h tid]
      show ?thesis
        by auto
    qed
  qed
  have q: "quitMessageId = 0xfffff321"
    by (simp add: quitMessageId_def)
  from deliver_listener [OF inst free live, of h tid]
    deliver_quit [OF inst free live, of h tid]
    deliver_dropped [OF inst free live, of h tid] once q
  show ?thesis
    by blast
qed

text \<open>
  C2. \<^verbatim>\<open>deliverMessage\<close>, for every message and every state. Whenever the call returns,
  the message manager existed, its mutex was free for the lock of the call, the message
  was alive, and the state returned is the one of the matching case: if the recipient is
  in \<^verbatim>\<open>messageListeners\<close> the handler has been called and has returned or thrown (a
  throw is caught, the call goes on); otherwise, if the recipient is null and
  \<^verbatim>\<open>intParameter1\<close> is \<open>0xfffff321\<close>, \<^verbatim>\<open>quitMessageReceived\<close> has been set; otherwise
  nothing but the deletion has happened. In all three cases the message is gone and
  exactly one \<^verbatim>\<open>delete\<close> of it has been added to the log. Conversely, on a live message
  with the message manager existing and the mutex free, the call returns in the second
  and third case, and in the first case exactly when the handler returns or throws. While
  the mutex is held the call waits.
\<close>

theorem deliver_three_cases:
  fixes w :: "'u world"
  shows "(\<forall>w'. deliverMessage h tid message w = Some w' \<longrightarrow>
            (\<exists>mm m. instance' w = Some mm \<and> messageDispatchLock mm = None \<and>
               Message_at message w = Some m \<and>
               (messageRecipient m \<in> messageListeners mm \<longrightarrow>
                  (\<exists>c a. h (messageRecipient m) m (app w) = Some (c, a) \<and>
                     w' = w\<lparr>app := a, heap := (heap w)(message := None),
                             trace := trace w @ HandleMessage (messageRecipient m) message #
                               (case c of Returned \<Rightarrow> [] | Threw \<Rightarrow> [ExceptionCaught]) @
                               [DeleteMessage message]\<rparr>)) \<and>
               (messageRecipient m \<notin> messageListeners mm \<and>
                messageRecipient m = 0 \<and> intParameter1 m = quitMessageId \<longrightarrow>
                  w' = w\<lparr>instance' := Some (mm\<lparr>quitMessageReceived := True\<rparr>),
                          heap := (heap w)(message := None),
                          trace := trace w @ [DeleteMessage message]\<rparr>) \<and>
               (messageRecipient m \<notin> messageListeners mm \<and>
                \<not> (messageRecipient m = 0 \<and> intParameter1 m = quitMessageId) \<longrightarrow>
                  w' = w\<lparr>heap := (heap w)(message := None),
                          trace := trace w @ [DeleteMessage message]\<rparr>)) \<and>
            heap w' message = None \<and>
            count_list (trace w') (DeleteMessage message) =
              Suc (count_list (trace w) (DeleteMessage message))) \<and>
         (\<forall>mm m. instance' w = Some mm \<and> messageDispatchLock mm = None \<and>
                 Message_at message w = Some m \<longrightarrow>
            (messageRecipient m \<in> messageListeners mm \<longrightarrow>
               deliverMessage h tid message w =
                 map_option
                   (\<lambda>(c, a). w\<lparr>app := a, heap := (heap w)(message := None),
                               trace := trace w @ HandleMessage (messageRecipient m) message #
                                 (case c of Returned \<Rightarrow> [] | Threw \<Rightarrow> [ExceptionCaught]) @
                                 [DeleteMessage message]\<rparr>)
                   (h (messageRecipient m) m (app w))) \<and>
            (messageRecipient m \<notin> messageListeners mm \<and>
             messageRecipient m = 0 \<and> intParameter1 m = quitMessageId \<longrightarrow>
               deliverMessage h tid message w =
                 Some (w\<lparr>instance' := Some (mm\<lparr>quitMessageReceived := True\<rparr>),
                         heap := (heap w)(message := None),
                         trace := trace w @ [DeleteMessage message]\<rparr>)) \<and>
            (messageRecipient m \<notin> messageListeners mm \<and>
             \<not> (messageRecipient m = 0 \<and> intParameter1 m = quitMessageId) \<longrightarrow>
               deliverMessage h tid message w =
                 Some (w\<lparr>heap := (heap w)(message := None),
                         trace := trace w @ [DeleteMessage message]\<rparr>))) \<and>
         (\<forall>mm. instance' w = Some mm \<and> messageDispatchLock mm \<noteq> None \<longrightarrow>
            deliverMessage h tid message w = None) \<and>
         quitMessageId = 0xfffff321"
proof -
  have returned:
    "(\<exists>mm m. instance' w = Some mm \<and> messageDispatchLock mm = None \<and>
        Message_at message w = Some m \<and>
        (messageRecipient m \<in> messageListeners mm \<longrightarrow>
           (\<exists>c a. h (messageRecipient m) m (app w) = Some (c, a) \<and>
              w' = w\<lparr>app := a, heap := (heap w)(message := None),
                      trace := trace w @ HandleMessage (messageRecipient m) message #
                        (case c of Returned \<Rightarrow> [] | Threw \<Rightarrow> [ExceptionCaught]) @
                        [DeleteMessage message]\<rparr>)) \<and>
        (messageRecipient m \<notin> messageListeners mm \<and>
         messageRecipient m = 0 \<and> intParameter1 m = quitMessageId \<longrightarrow>
           w' = w\<lparr>instance' := Some (mm\<lparr>quitMessageReceived := True\<rparr>),
                   heap := (heap w)(message := None),
                   trace := trace w @ [DeleteMessage message]\<rparr>) \<and>
        (messageRecipient m \<notin> messageListeners mm \<and>
         \<not> (messageRecipient m = 0 \<and> intParameter1 m = quitMessageId) \<longrightarrow>
           w' = w\<lparr>heap := (heap w)(message := None),
                   trace := trace w @ [DeleteMessage message]\<rparr>)) \<and>
     heap w' message = None \<and>
     count_list (trace w') (DeleteMessage message) =
       Suc (count_list (trace w) (DeleteMessage message))"
    if r: "deliverMessage h tid message w = Some w'" for w'
  proof -
    from deliver_Some [OF r] obtain mm m where
      inst: "instance' w = Some mm" and free: "messageDispatchLock mm = None"
      and live: "Message_at message w = Some m"
      by blast
    note known = deliver_cases_free [OF inst free live, of h tid]
    have listener: "\<exists>c a. h (messageRecipient m) m (app w) = Some (c, a) \<and>
        w' = w\<lparr>app := a, heap := (heap w)(message := None),
                trace := trace w @ HandleMessage (messageRecipient m) message #
                  (case c of Returned \<Rightarrow> [] | Threw \<Rightarrow> [ExceptionCaught]) @
                  [DeleteMessage message]\<rparr>"
      if "messageRecipient m \<in> messageListeners mm"
      using deliver_listener [OF inst free live that, of h tid] r
      by (cases "h (messageRecipient m) m (app w)") auto
    have quit: "w' = w\<lparr>instance' := Some (mm\<lparr>quitMessageReceived := True\<rparr>),
                       heap := (heap w)(message := None),
                       trace := trace w @ [DeleteMessage message]\<rparr>"
      if "messageRecipient m \<notin> messageListeners mm \<and>
          messageRecipient m = 0 \<and> intParameter1 m = quitMessageId"
    proof -
      from that have a: "messageRecipient m \<notin> messageListeners mm"
        and b: "messageRecipient m = 0 \<and> intParameter1 m = quitMessageId"
        by blast+
      from deliver_quit [OF inst free live a b, of h tid] r show ?thesis
        by simp
    qed
    have dropped: "w' = w\<lparr>heap := (heap w)(message := None),
                          trace := trace w @ [DeleteMessage message]\<rparr>"
      if "messageRecipient m \<notin> messageListeners mm \<and>
          \<not> (messageRecipient m = 0 \<and> intParameter1 m = quitMessageId)"
    proof -
      from that have a: "messageRecipient m \<notin> messageListeners mm"
        and b: "\<not> (messageRecipient m = 0 \<and> intParameter1 m = quitMessageId)"
        by blast+
      from deliver_dropped [OF inst free live a b, of h tid] r show ?thesis
        by simp
    qed
    from known r have once: "heap w' message = None \<and>
        count_list (trace w') (DeleteMessage message) =
          Suc (count_list (trace w) (DeleteMessage message))"
      by blast
    from inst free live listener quit dropped once show ?thesis
      by blast
  qed
  have started:
    "(messageRecipient m \<in> messageListeners mm \<longrightarrow>
        deliverMessage h tid message w =
          map_option
            (\<lambda>(c, a). w\<lparr>app := a, heap := (heap w)(message := None),
                        trace := trace w @ HandleMessage (messageRecipient m) message #
                          (case c of Returned \<Rightarrow> [] | Threw \<Rightarrow> [ExceptionCaught]) @
                          [DeleteMessage message]\<rparr>)
            (h (messageRecipient m) m (app w))) \<and>
     (messageRecipient m \<notin> messageListeners mm \<and>
      messageRecipient m = 0 \<and> intParameter1 m = quitMessageId \<longrightarrow>
        deliverMessage h tid message w =
          Some (w\<lparr>instance' := Some (mm\<lparr>quitMessageReceived := True\<rparr>),
                  heap := (heap w)(message := None),
                  trace := trace w @ [DeleteMessage message]\<rparr>)) \<and>
     (messageRecipient m \<notin> messageListeners mm \<and>
      \<not> (messageRecipient m = 0 \<and> intParameter1 m = quitMessageId) \<longrightarrow>
        deliverMessage h tid message w =
          Some (w\<lparr>heap := (heap w)(message := None),
                  trace := trace w @ [DeleteMessage message]\<rparr>))"
    if "instance' w = Some mm \<and> messageDispatchLock mm = None \<and>
        Message_at message w = Some m" for mm m
  proof -
    from that have inst: "instance' w = Some mm" and free: "messageDispatchLock mm = None"
      and live: "Message_at message w = Some m"
      by simp_all
    from deliver_cases_free [OF inst free live, of h tid] show ?thesis
      by blast
  qed
  have waits: "deliverMessage h tid message w = None"
    if "instance' w = Some mm \<and> messageDispatchLock mm \<noteq> None" for mm
  proof (cases "deliverMessage h tid message w")
    case None
    then show ?thesis .
  next
    case (Some w')
    from deliver_Some [OF Some] that show ?thesis
      by auto
  qed
  have q: "quitMessageId = 0xfffff321"
    by (simp add: quitMessageId_def)
  from returned started waits q show ?thesis
    by blast
qed

theorem deliver_three_cases_witness:
  "deliverMessage counting_handler 1 10 mail_world =
     Some (mail_world\<lparr>app := 1, heap := (heap mail_world)(10 := None),
                      trace := [HandleMessage 7 10, DeleteMessage 10]\<rparr>) \<and>
   deliverMessage throwing_handler 1 10 mail_world =
     Some (mail_world\<lparr>app := 1, heap := (heap mail_world)(10 := None),
                      trace := [HandleMessage 7 10, ExceptionCaught, DeleteMessage 10]\<rparr>) \<and>
   deliverMessage counting_handler 1 11 mail_world =
     Some (mail_world\<lparr>instance' := Some (listening_manager\<lparr>quitMessageReceived := True\<rparr>),
                      heap := (heap mail_world)(11 := None),
                      trace := [DeleteMessage 11]\<rparr>) \<and>
   deliverMessage counting_handler 1 12 mail_world =
     Some (mail_world\<lparr>heap := (heap mail_world)(12 := None), trace := [DeleteMessage 12]\<rparr>) \<and>
   deliverMessage counting_handler 1 10
       (mail_world\<lparr>instance' := Some (listening_manager\<lparr>messageDispatchLock := Some 2\<rparr>)\<rparr>) =
     None"
proof -
  note started = deliver_three_cases [THEN conjunct2, THEN conjunct1, rule_format]
  note waits = deliver_three_cases
    [THEN conjunct2, THEN conjunct2, THEN conjunct1, rule_format]
  note cases10 = started
    [OF conjI [OF mail_world_instance conjI [OF listening_manager_fields(3) mail_world_messages(1)]]]
  note cases11 = started
    [OF conjI [OF mail_world_instance conjI [OF listening_manager_fields(3) mail_world_messages(2)]]]
  note cases12 = started
    [OF conjI [OF mail_world_instance conjI [OF listening_manager_fields(3) mail_world_messages(3)]]]
  have held: "instance' (mail_world\<lparr>instance' :=
                  Some (listening_manager\<lparr>messageDispatchLock := Some 2\<rparr>)\<rparr>) =
                Some (listening_manager\<lparr>messageDispatchLock := Some 2\<rparr>) \<and>
              messageDispatchLock (listening_manager\<lparr>messageDispatchLock := Some 2\<rparr>) \<noteq> None"
    by simp
  note 5 = waits [OF held, where h = counting_handler and tid = 1 and message = 10]
  have t: "trace mail_world = []" and a: "app mail_world = 0"
    by (simp_all add: mail_world_def empty_world_def)
  have r10: "messageRecipient to_listener \<in> messageListeners listening_manager"
    by (simp add: to_listener_def listening_manager_fields)
  have r11: "messageRecipient quit_message \<notin> messageListeners listening_manager \<and>
             messageRecipient quit_message = 0 \<and> intParameter1 quit_message = quitMessageId"
    by (simp add: quit_message_def Message_ctor_def listening_manager_fields)
  have r12: "messageRecipient to_stranger \<notin> messageListeners listening_manager \<and>
             \<not> (messageRecipient to_stranger = 0 \<and> intParameter1 to_stranger = quitMessageId)"
    by (simp add: to_stranger_def listening_manager_fields)
  from cases10 [where h = counting_handler and tid = 1] r10
  have "deliverMessage counting_handler 1 10 mail_world =
          map_option
            (\<lambda>(c, a). mail_world\<lparr>app := a, heap := (heap mail_world)(10 := None),
               trace := trace mail_world @ HandleMessage (messageRecipient to_listener) 10 #
                          (case c of Returned \<Rightarrow> [] | Threw \<Rightarrow> [ExceptionCaught]) @
                          [DeleteMessage 10]\<rparr>)
            (counting_handler (messageRecipient to_listener) to_listener (app mail_world))"
    by blast
  then have 1: "deliverMessage counting_handler 1 10 mail_world =
     Some (mail_world\<lparr>app := 1, heap := (heap mail_world)(10 := None),
                      trace := [HandleMessage 7 10, DeleteMessage 10]\<rparr>)"
    by (simp add: counting_handler_def t a to_listener_def)
  from cases10 [where h = throwing_handler and tid = 1] r10
  have "deliverMessage throwing_handler 1 10 mail_world =
          map_option
            (\<lambda>(c, a). mail_world\<lparr>app := a, heap := (heap mail_world)(10 := None),
               trace := trace mail_world @ HandleMessage (messageRecipient to_listener) 10 #
                          (case c of Returned \<Rightarrow> [] | Threw \<Rightarrow> [ExceptionCaught]) @
                          [DeleteMessage 10]\<rparr>)
            (throwing_handler (messageRecipient to_listener) to_listener (app mail_world))"
    by blast
  then have 2: "deliverMessage throwing_handler 1 10 mail_world =
     Some (mail_world\<lparr>app := 1, heap := (heap mail_world)(10 := None),
                      trace := [HandleMessage 7 10, ExceptionCaught, DeleteMessage 10]\<rparr>)"
    by (simp add: throwing_handler_def t a to_listener_def)
  from cases11 [where h = counting_handler and tid = 1] r11
  have "deliverMessage counting_handler 1 11 mail_world =
          Some (mail_world\<lparr>instance' := Some (listening_manager\<lparr>quitMessageReceived := True\<rparr>),
                  heap := (heap mail_world)(11 := None),
                  trace := trace mail_world @ [DeleteMessage 11]\<rparr>)"
    by blast
  then have 3: "deliverMessage counting_handler 1 11 mail_world =
     Some (mail_world\<lparr>instance' := Some (listening_manager\<lparr>quitMessageReceived := True\<rparr>),
                      heap := (heap mail_world)(11 := None),
                      trace := [DeleteMessage 11]\<rparr>)"
    by (simp add: t)
  from cases12 [where h = counting_handler and tid = 1] r12
  have "deliverMessage counting_handler 1 12 mail_world =
          Some (mail_world\<lparr>heap := (heap mail_world)(12 := None),
                  trace := trace mail_world @ [DeleteMessage 12]\<rparr>)"
    by blast
  then have 4: "deliverMessage counting_handler 1 12 mail_world =
     Some (mail_world\<lparr>heap := (heap mail_world)(12 := None), trace := [DeleteMessage 12]\<rparr>)"
    by (simp add: t)
  show ?thesis
    by (intro conjI) (rule 1 2 3 4 5)+
qed

subsection \<open>The dispatch loop and the quit flag\<close>

lemma deliver_frame:
  fixes w :: "'u world"
  assumes r: "deliverMessage h tid message w = Some w'"
  shows "timeSource w' = timeSource w \<and> timeCalls w' = timeCalls w \<and>
         (\<exists>es. trace w' = trace w @ es \<and> (\<forall>f. DispatchNext f \<notin> set es)) \<and>
         (quitReceived w \<longrightarrow> quitReceived w')"
proof -
  from deliver_Some [OF r] obtain mm m where
    inst: "instance' w = Some mm" and free: "messageDispatchLock mm = None"
    and live: "Message_at message w = Some m"
    by blast
  show ?thesis
  proof (cases "messageRecipient m \<in> messageListeners mm")
    case True
    from r deliver_listener [OF inst free live True, of h tid]
    obtain c a where
      "w' = w\<lparr>app := a, heap := (heap w)(message := None),
                 trace := trace w @ HandleMessage (messageRecipient m) message #
                            (case c of Returned \<Rightarrow> [] | Threw \<Rightarrow> [ExceptionCaught]) @
                            [DeleteMessage message]\<rparr>"
      by auto
    then show ?thesis
      using inst by (cases c) (simp_all add: quitReceived_def)
  next
    case False
    show ?thesis
    proof (cases "messageRecipient m = 0 \<and> intParameter1 m = quitMessageId")
      case True
      from r deliver_quit [OF inst free live False True, of h tid]
      show ?thesis
        using inst by (auto simp: quitReceived_def)
    next
      case no: False
      from r deliver_dropped [OF inst free live False no, of h tid]
      show ?thesis
        using inst by (auto simp: quitReceived_def)
    qed
  qed
qed

lemma dispatchNext_frame:
  fixes w :: "'u world"
  assumes r: "juce_dispatchNextMessageOnSystemQueue h tid f w = Some (x, w')"
  shows "timeSource w' = timeSource w \<and> timeCalls w' = timeCalls w \<and>
         (\<exists>es. trace w' = trace w @ DispatchNext f # es \<and> (\<forall>g. DispatchNext g \<notin> set es)) \<and>
         (quitReceived w \<longrightarrow> quitReceived w')"
proof (cases "systemQueue w")
  case Nil
  with r show ?thesis
    by (auto simp: juce_dispatchNextMessageOnSystemQueue_def quitReceived_def split: if_splits)
next
  case (Cons message rest)
  let ?w1 = "w\<lparr>trace := trace w @ [DispatchNext f], systemQueue := rest\<rparr>"
  from r Cons have d: "deliverMessage h tid message ?w1 = Some w'"
    by (auto simp: juce_dispatchNextMessageOnSystemQueue_def bind_eq_Some_conv)
  from deliver_frame [OF d] show ?thesis
    by (auto simp: quitReceived_def)
qed

lemma keepDispatching_Some:
  fixes w :: "'u world"
  assumes "keepDispatching ms e w = Some (c, w1)"
  shows "\<exists>this. instance' w = Some this \<and>
           c = ((ms <s 0 \<or> timeSource w (timeCalls w) <s e) \<and> \<not> quitMessageReceived this) \<and>
           w1 = (if ms <s 0 then w else w\<lparr>timeCalls := Suc (timeCalls w)\<rparr>)"
  using assms
  by (auto simp: keepDispatching_def Time_currentTimeMillis_def split: option.splits if_splits)

lemma dispatchLoop_result:
  fixes w :: "'u world"
  assumes "dispatchLoop h tid ms e w = Some r"
  shows "timeSource (snd r) = timeSource w \<and> timeCalls w \<le> timeCalls (snd r) \<and>
         (\<exists>this. instance' (snd r) = Some this \<and> fst r = (\<not> quitMessageReceived this)) \<and>
         (fst r \<longrightarrow> 0 \<le>s ms \<and> timeCalls w < timeCalls (snd r) \<and>
                    \<not> (timeSource w (timeCalls (snd r) - 1) <s e)) \<and>
         (ms <s 0 \<longrightarrow> \<not> fst r \<and> timeCalls (snd r) = timeCalls w) \<and>
         (\<exists>es. trace (snd r) = trace w @ es \<and>
               (\<forall>f. DispatchNext f \<in> set es \<longrightarrow> f = (0 \<le>s ms)) \<and>
               (0 \<le>s ms \<longrightarrow>
                  timeCalls (snd r) =
                    Suc (timeCalls w + count_list es (DispatchNext (0 \<le>s ms))))) \<and>
         (0 \<le>s ms \<longrightarrow>
            (\<forall>i. timeCalls w \<le> i \<and> i < timeCalls (snd r) - 1 \<longrightarrow> timeSource w i <s e))"
proof (rule dispatchLoop.raw_induct [OF _ assms], goal_cases)
  case (1 loop h tid ms e w r)
  from 1(2) obtain c w1 where k: "keepDispatching ms e w = Some (c, w1)"
    and rest: "(if c
                then juce_dispatchNextMessageOnSystemQueue h tid (0 \<le>s ms) w1 \<bind>
                       (\<lambda>(uu, w2). loop h tid ms e w2)
                else instance' w1 \<bind> (\<lambda>this. Some (\<not> quitMessageReceived this, w1))) = Some r"
    by (auto simp: bind_eq_Some_conv)
  from keepDispatching_Some [OF k] obtain this where
    inst: "instance' w = Some this"
    and c: "c = ((ms <s 0 \<or> timeSource w (timeCalls w) <s e) \<and> \<not> quitMessageReceived this)"
    and w1: "w1 = (if ms <s 0 then w else w\<lparr>timeCalls := Suc (timeCalls w)\<rparr>)"
    by blast
  show ?case
  proof (cases c)
    case False
    with rest inst w1 have r: "r = (\<not> quitMessageReceived this, w1)"
      by (auto simp: bind_eq_Some_conv split: if_splits)
    have tr: "\<exists>es. trace (snd r) = trace w @ es \<and>
               (\<forall>f. DispatchNext f \<in> set es \<longrightarrow> f = (0 \<le>s ms)) \<and>
               (0 \<le>s ms \<longrightarrow>
                  timeCalls (snd r) =
                    Suc (timeCalls w + count_list es (DispatchNext (0 \<le>s ms))))"
      using r w1 by (intro exI [of _ "[]"]) (auto simp: signed.not_less)
    have rd: "0 \<le>s ms \<longrightarrow>
            (\<forall>i. timeCalls w \<le> i \<and> i < timeCalls (snd r) - 1 \<longrightarrow> timeSource w i <s e)"
      using r w1 by (auto simp: signed.not_less)
    from False c r w1 inst have
      "timeSource (snd r) = timeSource w \<and> timeCalls w \<le> timeCalls (snd r) \<and>
       (\<exists>this. instance' (snd r) = Some this \<and> fst r = (\<not> quitMessageReceived this)) \<and>
       (fst r \<longrightarrow> 0 \<le>s ms \<and> timeCalls w < timeCalls (snd r) \<and>
                  \<not> (timeSource w (timeCalls (snd r) - 1) <s e)) \<and>
       (ms <s 0 \<longrightarrow> \<not> fst r \<and> timeCalls (snd r) = timeCalls w)"
      by (auto simp: signed.not_less)
    with tr rd show ?thesis
      by blast
  next
    case True
    with rest obtain x w2 where
      d: "juce_dispatchNextMessageOnSystemQueue h tid (0 \<le>s ms) w1 = Some (x, w2)"
      and l: "loop h tid ms e w2 = Some r"
      by (auto simp: bind_eq_Some_conv)
    note ih = 1(1) [OF l]
    from dispatchNext_frame [OF d] obtain es where
      f: "timeSource w2 = timeSource w1" "timeCalls w2 = timeCalls w1"
        "trace w2 = trace w1 @ DispatchNext (0 \<le>s ms) # es" "\<forall>g. DispatchNext g \<notin> set es"
      by blast
    from ih obtain es' where
      t: "trace (snd r) = trace w2 @ es'" "\<forall>f. DispatchNext f \<in> set es' \<longrightarrow> f = (0 \<le>s ms)"
        "0 \<le>s ms \<longrightarrow>
           timeCalls (snd r) = Suc (timeCalls w2 + count_list es' (DispatchNext (0 \<le>s ms)))"
      by blast
    from f(4) have none: "count_list es (DispatchNext (0 \<le>s ms)) = 0"
      by (simp add: count_list_0_iff)
    have w1t: "trace w1 = trace w" "timeSource w1 = timeSource w"
      and w1c: "0 \<le>s ms \<longrightarrow> timeCalls w1 = Suc (timeCalls w)"
      and w1n: "ms <s 0 \<longrightarrow> timeCalls w1 = timeCalls w"
      using w1 by (auto simp: signed.not_less)
    have tr: "\<exists>es. trace (snd r) = trace w @ es \<and>
               (\<forall>f. DispatchNext f \<in> set es \<longrightarrow> f = (0 \<le>s ms)) \<and>
               (0 \<le>s ms \<longrightarrow>
                  timeCalls (snd r) =
                    Suc (timeCalls w + count_list es (DispatchNext (0 \<le>s ms))))"
      using t f w1t w1c none
      by (intro exI [of _ "DispatchNext (0 \<le>s ms) # es @ es'"]) auto
    have rd: "0 \<le>s ms \<longrightarrow>
            (\<forall>i. timeCalls w \<le> i \<and> i < timeCalls (snd r) - 1 \<longrightarrow> timeSource w i <s e)"
    proof (intro impI allI)
      fix i
      assume nonneg: "0 \<le>s ms" and range: "timeCalls w \<le> i \<and> i < timeCalls (snd r) - 1"
      from nonneg have "\<not> ms <s 0"
        by (simp add: signed.not_less)
      with True c have first: "timeSource w (timeCalls w) <s e"
        by simp
      show "timeSource w i <s e"
      proof (cases "i = timeCalls w")
        case True
        with first show ?thesis
          by simp
      next
        case False
        with range nonneg w1c f(2) have "timeCalls w2 \<le> i \<and> i < timeCalls (snd r) - 1"
          by simp
        with ih nonneg have "timeSource w2 i <s e"
          by blast
        with f(1) w1t(2) show ?thesis
          by simp
      qed
    qed
    from ih f(1,2) w1t(2) w1c w1n have
      "timeSource (snd r) = timeSource w \<and> timeCalls w \<le> timeCalls (snd r) \<and>
       (\<exists>this. instance' (snd r) = Some this \<and> fst r = (\<not> quitMessageReceived this)) \<and>
       (fst r \<longrightarrow> 0 \<le>s ms \<and> timeCalls w < timeCalls (snd r) \<and>
                  \<not> (timeSource w (timeCalls (snd r) - 1) <s e)) \<and>
       (ms <s 0 \<longrightarrow> \<not> fst r \<and> timeCalls (snd r) = timeCalls w)"
      by (auto simp: signed.not_less)
    with tr rd show ?thesis
      by blast
  qed
qed

lemma dispatchLoop_quit:
  fixes w :: "'u world"
  assumes "instance' w = Some this" and "quitMessageReceived this"
  shows "dispatchLoop h tid ms e w =
           Some (False, if ms <s 0 then w else w\<lparr>timeCalls := Suc (timeCalls w)\<rparr>)"
  using assms
  by (subst dispatchLoop.simps)
     (simp add: keepDispatching_def Time_currentTimeMillis_def)

lemma dispatchLoop_deadline:
  fixes w :: "'u world"
  assumes "instance' w = Some this" and "\<not> quitMessageReceived this"
    and "0 \<le>s ms" and "\<not> timeSource w (timeCalls w) <s e"
  shows "dispatchLoop h tid ms e w = Some (True, w\<lparr>timeCalls := Suc (timeCalls w)\<rparr>)"
  using assms
  by (subst dispatchLoop.simps)
     (simp add: keepDispatching_def Time_currentTimeMillis_def signed.not_less [symmetric])

lemma dispatchLoop_step:
  fixes w :: "'u world"
  assumes "instance' w = Some this" and "\<not> quitMessageReceived this"
    and "ms <s 0 \<or> timeSource w (timeCalls w) <s e"
  shows "dispatchLoop h tid ms e w =
           juce_dispatchNextMessageOnSystemQueue h tid (0 \<le>s ms)
             (if ms <s 0 then w else w\<lparr>timeCalls := Suc (timeCalls w)\<rparr>) \<bind>
           (\<lambda>(x, w2). dispatchLoop h tid ms e w2)"
  using assms
  by (subst dispatchLoop.simps)
     (auto simp: keepDispatching_def Time_currentTimeMillis_def)

lemma queued_world_fields:
  "instance' queued_world = Some listening_manager"
  "systemQueue queued_world = [10, 11]"
  "trace queued_world = []"
  "timeCalls queued_world = 0"
  "timeSource queued_world = of_nat"
  "app queued_world = 0"
  "heap queued_world = [10 \<mapsto> to_listener, 11 \<mapsto> quit_message, 12 \<mapsto> to_stranger]"
  by (simp_all add: queued_world_def mail_world_def empty_world_def)

lemma untimed_run:
  "runDispatchLoopUntil counting_handler 1 (- 1) queued_world =
     Some (False,
           queued_world\<lparr>instance' := Some (listening_manager\<lparr>quitMessageReceived := True\<rparr>),
                         heap := [12 \<mapsto> to_stranger],
                         systemQueue := [],
                         timeCalls := 1,
                         app := 1,
                         trace := [DispatchNext False, HandleMessage 7 10, DeleteMessage 10,
                                   DispatchNext False, DeleteMessage 11]\<rparr>)"
  unfolding runDispatchLoopUntil_def
  apply (simp add: Time_currentTimeMillis_def)
  apply (subst dispatchLoop.simps)
  apply (simp add: keepDispatching_def queued_world_fields listening_manager_fields
      juce_dispatchNextMessageOnSystemQueue_def deliverMessage_def MessageManagerLock_ctor_def
      CriticalSection_enter_def Message_at_def to_listener_def counting_handler_def
      JUCE_CATCH_EXCEPTION_def delete_Message_def MessageManagerLock_dtor_def
      CriticalSection_exit_def)
  apply (subst dispatchLoop.simps)
  apply (simp add: keepDispatching_def queued_world_fields listening_manager_fields
      juce_dispatchNextMessageOnSystemQueue_def deliverMessage_def MessageManagerLock_ctor_def
      CriticalSection_enter_def Message_at_def quit_message_def Message_ctor_def
      quitMessageId_def delete_Message_def MessageManagerLock_dtor_def
      CriticalSection_exit_def)
  apply (subst dispatchLoop.simps)
  apply (simp add: keepDispatching_def queued_world_fields listening_manager_fields)
  done

lemma mail_world_fields:
  "systemQueue mail_world = []"
  "trace mail_world = []"
  "timeCalls mail_world = 0"
  "timeSource mail_world = of_nat"
  "app mail_world = 0"
  by (simp_all add: mail_world_def empty_world_def)

lemma timed_run:
  "runDispatchLoopUntil counting_handler 1 3 mail_world =
     Some (True, mail_world\<lparr>timeCalls := 4, trace := [DispatchNext True, DispatchNext True]\<rparr>)"
  unfolding runDispatchLoopUntil_def
  apply (simp add: Time_currentTimeMillis_def mail_world_fields)
  apply (subst dispatchLoop.simps)
  apply (simp add: keepDispatching_def mail_world_instance listening_manager_fields
      mail_world_fields Time_currentTimeMillis_def word_sless_alt word_sle_eq
      juce_dispatchNextMessageOnSystemQueue_def)
  apply (subst dispatchLoop.simps)
  apply (simp add: keepDispatching_def mail_world_instance listening_manager_fields
      mail_world_fields Time_currentTimeMillis_def word_sless_alt word_sle_eq
      juce_dispatchNextMessageOnSystemQueue_def)
  apply (subst dispatchLoop.simps)
  apply (simp add: keepDispatching_def mail_world_instance listening_manager_fields
      mail_world_fields Time_currentTimeMillis_def word_sless_alt word_sle_eq)
  done

text \<open>
  C3. \<^verbatim>\<open>runDispatchLoopUntil\<close> reads the clock once for the end time and enters the
  loop. At every test of the loop condition, in whatever state the loop is by then: if
  \<^verbatim>\<open>quitMessageReceived\<close> is set the loop returns false; if it is not set,
  \<^verbatim>\<open>millisecondsToRunFor\<close> is not negative and the clock is not before the end time,
  the loop returns true; in every other case it calls the platform function with the
  argument \<^verbatim>\<open>millisecondsToRunFor >= 0\<close> (so the function waits on an empty queue exactly
  when \<^verbatim>\<open>millisecondsToRunFor\<close> is negative) and comes back to the test in the state that
  call returns. For a negative \<^verbatim>\<open>millisecondsToRunFor\<close> the clock is not read in the
  loop: there is no deadline.

  Whenever the call returns, its result is the negation of \<^verbatim>\<open>quitMessageReceived\<close> at
  that moment; a result of true means that \<^verbatim>\<open>millisecondsToRunFor\<close> is not negative and
  that the last reading of the clock is not before the end time; with a negative
  \<^verbatim>\<open>millisecondsToRunFor\<close> the result is false; every call of the platform function in
  the log of the run has the argument \<^verbatim>\<open>millisecondsToRunFor >= 0\<close>; and in a timed run
  there is one such call for each test that went on, each of these tests having read the
  clock before the end time.
\<close>

theorem dispatch_loop_until:
  fixes w :: "'u world"
  shows "runDispatchLoopUntil h tid ms w =
           dispatchLoop h tid ms (timeSource w (timeCalls w) + signed ms)
             (w\<lparr>timeCalls := Suc (timeCalls w)\<rparr>) \<and>
         (\<forall>e (v::'u world) this. instance' v = Some this \<and> quitMessageReceived this \<longrightarrow>
            dispatchLoop h tid ms e v =
              Some (False, if ms <s 0 then v else v\<lparr>timeCalls := Suc (timeCalls v)\<rparr>)) \<and>
         (\<forall>e (v::'u world) this.
            instance' v = Some this \<and> \<not> quitMessageReceived this \<and> 0 \<le>s ms \<and>
            \<not> (timeSource v (timeCalls v) <s e) \<longrightarrow>
            dispatchLoop h tid ms e v = Some (True, v\<lparr>timeCalls := Suc (timeCalls v)\<rparr>)) \<and>
         (\<forall>e (v::'u world) this.
            instance' v = Some this \<and> \<not> quitMessageReceived this \<and>
            (ms <s 0 \<or> timeSource v (timeCalls v) <s e) \<longrightarrow>
            dispatchLoop h tid ms e v =
              juce_dispatchNextMessageOnSystemQueue h tid (0 \<le>s ms)
                (if ms <s 0 then v else v\<lparr>timeCalls := Suc (timeCalls v)\<rparr>) \<bind>
              (\<lambda>(x, w2). dispatchLoop h tid ms e w2)) \<and>
         (\<forall>b w'. runDispatchLoopUntil h tid ms w = Some (b, w') \<longrightarrow>
            (\<exists>this. instance' w' = Some this \<and> b = (\<not> quitMessageReceived this)) \<and>
            (b \<longrightarrow> 0 \<le>s ms \<and>
                   \<not> (timeSource w (timeCalls w' - 1) <s
                        timeSource w (timeCalls w) + signed ms)) \<and>
            (ms <s 0 \<longrightarrow> \<not> b \<and> timeCalls w' = Suc (timeCalls w)) \<and>
            (\<exists>es. trace w' = trace w @ es \<and>
                  (\<forall>f. DispatchNext f \<in> set es \<longrightarrow> f = (0 \<le>s ms)) \<and>
                  (0 \<le>s ms \<longrightarrow>
                     timeCalls w' =
                       timeCalls w + 2 + count_list es (DispatchNext (0 \<le>s ms)))) \<and>
            (0 \<le>s ms \<longrightarrow>
               (\<forall>i. Suc (timeCalls w) \<le> i \<and> i < timeCalls w' - 1 \<longrightarrow>
                  timeSource w i <s timeSource w (timeCalls w) + signed ms))) \<and>
         (\<forall>this. instance' w = Some this \<and> quitMessageReceived this \<longrightarrow>
            runDispatchLoopUntil h tid ms w =
              Some (False, w\<lparr>timeCalls := (if ms <s 0 then 1 else 2) + timeCalls w\<rparr>)) \<and>
         (\<forall>this. instance' w = Some this \<and> \<not> quitMessageReceived this \<and> 0 \<le>s ms \<and>
                 \<not> (timeSource w (Suc (timeCalls w)) <s
                      timeSource w (timeCalls w) + signed ms) \<longrightarrow>
            runDispatchLoopUntil h tid ms w = Some (True, w\<lparr>timeCalls := 2 + timeCalls w\<rparr>)) \<and>
         (\<forall>this. instance' w = Some this \<and> \<not> quitMessageReceived this \<and>
                 (ms <s 0 \<or> timeSource w (Suc (timeCalls w)) <s
                               timeSource w (timeCalls w) + signed ms) \<longrightarrow>
            runDispatchLoopUntil h tid ms w =
              juce_dispatchNextMessageOnSystemQueue h tid (0 \<le>s ms)
                (w\<lparr>timeCalls := (if ms <s 0 then 1 else 2) + timeCalls w\<rparr>) \<bind>
              (\<lambda>(x, w2). dispatchLoop h tid ms (timeSource w (timeCalls w) + signed ms) w2))"
proof -
  let ?e = "timeSource w (timeCalls w) + signed ms"
  let ?w1 = "w\<lparr>timeCalls := Suc (timeCalls w)\<rparr>"
  have run: "runDispatchLoopUntil h tid ms w = dispatchLoop h tid ms ?e ?w1"
    by (simp add: runDispatchLoopUntil_def Time_currentTimeMillis_def)
  have at_quit: "dispatchLoop h tid ms e v =
      Some (False, if ms <s 0 then v else v\<lparr>timeCalls := Suc (timeCalls v)\<rparr>)"
    if "instance' v = Some this \<and> quitMessageReceived this" for e this and v :: "'u world"
    using dispatchLoop_quit [of v this h tid ms e] that by blast
  have at_deadline: "dispatchLoop h tid ms e v = Some (True, v\<lparr>timeCalls := Suc (timeCalls v)\<rparr>)"
    if "instance' v = Some this \<and> \<not> quitMessageReceived this \<and> 0 \<le>s ms \<and>
        \<not> (timeSource v (timeCalls v) <s e)" for e this and v :: "'u world"
    using dispatchLoop_deadline [of v this ms e h tid] that by blast
  have at_step: "dispatchLoop h tid ms e v =
      juce_dispatchNextMessageOnSystemQueue h tid (0 \<le>s ms)
        (if ms <s 0 then v else v\<lparr>timeCalls := Suc (timeCalls v)\<rparr>) \<bind>
      (\<lambda>(x, w2). dispatchLoop h tid ms e w2)"
    if "instance' v = Some this \<and> \<not> quitMessageReceived this \<and>
        (ms <s 0 \<or> timeSource v (timeCalls v) <s e)" for e this and v :: "'u world"
    using dispatchLoop_step [of v this ms e h tid] that by blast
  have partial:
    "(\<exists>this. instance' w' = Some this \<and> b = (\<not> quitMessageReceived this)) \<and>
     (b \<longrightarrow> 0 \<le>s ms \<and> \<not> (timeSource w (timeCalls w' - 1) <s ?e)) \<and>
     (ms <s 0 \<longrightarrow> \<not> b \<and> timeCalls w' = Suc (timeCalls w)) \<and>
     (\<exists>es. trace w' = trace w @ es \<and>
           (\<forall>f. DispatchNext f \<in> set es \<longrightarrow> f = (0 \<le>s ms)) \<and>
           (0 \<le>s ms \<longrightarrow>
              timeCalls w' = timeCalls w + 2 + count_list es (DispatchNext (0 \<le>s ms)))) \<and>
     (0 \<le>s ms \<longrightarrow>
        (\<forall>i. Suc (timeCalls w) \<le> i \<and> i < timeCalls w' - 1 \<longrightarrow> timeSource w i <s ?e))"
    if "runDispatchLoopUntil h tid ms w = Some (b, w')" for b w'
  proof -
    from that run have l: "dispatchLoop h tid ms ?e ?w1 = Some (b, w')"
      by simp
    note res = dispatchLoop_result [OF l]
    from res obtain es where
      es: "trace w' = trace w @ es" "\<forall>f. DispatchNext f \<in> set es \<longrightarrow> f = (0 \<le>s ms)"
        "0 \<le>s ms \<longrightarrow>
           timeCalls w' = Suc (Suc (timeCalls w) + count_list es (DispatchNext (0 \<le>s ms)))"
      by auto
    have tr: "\<exists>es. trace w' = trace w @ es \<and>
           (\<forall>f. DispatchNext f \<in> set es \<longrightarrow> f = (0 \<le>s ms)) \<and>
           (0 \<le>s ms \<longrightarrow>
              timeCalls w' = timeCalls w + 2 + count_list es (DispatchNext (0 \<le>s ms)))"
      using es by (intro exI [of _ es]) simp
    from res have others:
      "(\<exists>this. instance' w' = Some this \<and> b = (\<not> quitMessageReceived this)) \<and>
       (b \<longrightarrow> 0 \<le>s ms \<and> \<not> (timeSource w (timeCalls w' - 1) <s ?e)) \<and>
       (ms <s 0 \<longrightarrow> \<not> b \<and> timeCalls w' = Suc (timeCalls w)) \<and>
       (0 \<le>s ms \<longrightarrow>
          (\<forall>i. Suc (timeCalls w) \<le> i \<and> i < timeCalls w' - 1 \<longrightarrow> timeSource w i <s ?e))"
      by simp
    with tr show ?thesis
      by blast
  qed
  have quit: "runDispatchLoopUntil h tid ms w =
                Some (False, w\<lparr>timeCalls := (if ms <s 0 then 1 else 2) + timeCalls w\<rparr>)"
    if "instance' w = Some this \<and> quitMessageReceived this" for this
    using dispatchLoop_quit [of ?w1 this h tid ms ?e] that run
    by simp
  have deadline: "runDispatchLoopUntil h tid ms w = Some (True, w\<lparr>timeCalls := 2 + timeCalls w\<rparr>)"
    if "instance' w = Some this \<and> \<not> quitMessageReceived this \<and> 0 \<le>s ms \<and>
        \<not> (timeSource w (Suc (timeCalls w)) <s ?e)" for this
    using dispatchLoop_deadline [of ?w1 this ms ?e h tid] that run
    by simp
  have step: "runDispatchLoopUntil h tid ms w =
                juce_dispatchNextMessageOnSystemQueue h tid (0 \<le>s ms)
                  (w\<lparr>timeCalls := (if ms <s 0 then 1 else 2) + timeCalls w\<rparr>) \<bind>
                (\<lambda>(x, w2). dispatchLoop h tid ms ?e w2)"
    if "instance' w = Some this \<and> \<not> quitMessageReceived this \<and>
        (ms <s 0 \<or> timeSource w (Suc (timeCalls w)) <s ?e)" for this
    using dispatchLoop_step [of ?w1 this ms ?e h tid] that run
    by (cases "ms <s 0") simp_all
  from at_quit have 2:
    "\<forall>e (v::'u world) this. instance' v = Some this \<and> quitMessageReceived this \<longrightarrow>
       dispatchLoop h tid ms e v =
         Some (False, if ms <s 0 then v else v\<lparr>timeCalls := Suc (timeCalls v)\<rparr>)"
    by blast
  from at_deadline have 3:
    "\<forall>e (v::'u world) this.
       instance' v = Some this \<and> \<not> quitMessageReceived this \<and> 0 \<le>s ms \<and>
       \<not> (timeSource v (timeCalls v) <s e) \<longrightarrow>
       dispatchLoop h tid ms e v = Some (True, v\<lparr>timeCalls := Suc (timeCalls v)\<rparr>)"
    by blast
  from at_step have 4:
    "\<forall>e (v::'u world) this.
       instance' v = Some this \<and> \<not> quitMessageReceived this \<and>
       (ms <s 0 \<or> timeSource v (timeCalls v) <s e) \<longrightarrow>
       dispatchLoop h tid ms e v =
         juce_dispatchNextMessageOnSystemQueue h tid (0 \<le>s ms)
           (if ms <s 0 then v else v\<lparr>timeCalls := Suc (timeCalls v)\<rparr>) \<bind>
         (\<lambda>(x, w2). dispatchLoop h tid ms e w2)"
    by blast
  from partial have 5:
    "\<forall>b w'. runDispatchLoopUntil h tid ms w = Some (b, w') \<longrightarrow>
       (\<exists>this. instance' w' = Some this \<and> b = (\<not> quitMessageReceived this)) \<and>
       (b \<longrightarrow> 0 \<le>s ms \<and> \<not> (timeSource w (timeCalls w' - 1) <s ?e)) \<and>
       (ms <s 0 \<longrightarrow> \<not> b \<and> timeCalls w' = Suc (timeCalls w)) \<and>
       (\<exists>es. trace w' = trace w @ es \<and>
             (\<forall>f. DispatchNext f \<in> set es \<longrightarrow> f = (0 \<le>s ms)) \<and>
             (0 \<le>s ms \<longrightarrow>
                timeCalls w' = timeCalls w + 2 + count_list es (DispatchNext (0 \<le>s ms)))) \<and>
       (0 \<le>s ms \<longrightarrow>
          (\<forall>i. Suc (timeCalls w) \<le> i \<and> i < timeCalls w' - 1 \<longrightarrow> timeSource w i <s ?e))"
    by blast
  from quit have 6:
    "\<forall>this. instance' w = Some this \<and> quitMessageReceived this \<longrightarrow>
       runDispatchLoopUntil h tid ms w =
         Some (False, w\<lparr>timeCalls := (if ms <s 0 then 1 else 2) + timeCalls w\<rparr>)"
    by blast
  from deadline have 7:
    "\<forall>this. instance' w = Some this \<and> \<not> quitMessageReceived this \<and> 0 \<le>s ms \<and>
            \<not> (timeSource w (Suc (timeCalls w)) <s ?e) \<longrightarrow>
       runDispatchLoopUntil h tid ms w = Some (True, w\<lparr>timeCalls := 2 + timeCalls w\<rparr>)"
    by blast
  from step have 8:
    "\<forall>this. instance' w = Some this \<and> \<not> quitMessageReceived this \<and>
            (ms <s 0 \<or> timeSource w (Suc (timeCalls w)) <s ?e) \<longrightarrow>
       runDispatchLoopUntil h tid ms w =
         juce_dispatchNextMessageOnSystemQueue h tid (0 \<le>s ms)
           (w\<lparr>timeCalls := (if ms <s 0 then 1 else 2) + timeCalls w\<rparr>) \<bind>
         (\<lambda>(x, w2). dispatchLoop h tid ms ?e w2)"
    by blast
  show ?thesis
    by (intro conjI) (rule run 2 3 4 5 6 7 8)+
qed

theorem dispatch_loop_until_witness:
  "runDispatchLoopUntil counting_handler 1 (- 1) queued_world =
     Some (False,
           queued_world\<lparr>instance' := Some (listening_manager\<lparr>quitMessageReceived := True\<rparr>),
                         heap := [12 \<mapsto> to_stranger],
                         systemQueue := [],
                         timeCalls := 1,
                         app := 1,
                         trace := [DispatchNext False, HandleMessage 7 10, DeleteMessage 10,
                                   DispatchNext False, DeleteMessage 11]\<rparr>) \<and>
   runDispatchLoopUntil counting_handler 1 3 mail_world =
     Some (True, mail_world\<lparr>timeCalls := 4, trace := [DispatchNext True, DispatchNext True]\<rparr>) \<and>
   0 \<le>s (3::32 word) \<and>
   \<not> (timeSource mail_world 3 <s timeSource mail_world 0 + signed (3::32 word)) \<and>
   timeSource mail_world 1 <s timeSource mail_world 0 + signed (3::32 word) \<and>
   timeSource mail_world 2 <s timeSource mail_world 0 + signed (3::32 word) \<and>
   (- 1 :: 32 word) <s 0"
proof -
  note returned = dispatch_loop_until
    [THEN conjunct2, THEN conjunct2, THEN conjunct2, THEN conjunct2, THEN conjunct1,
     rule_format]
  note timed = returned [OF timed_run]
  note untimed = returned [OF untimed_run]
  from timed have a: "0 \<le>s (3::32 word) \<and>
      \<not> (timeSource mail_world 3 <s timeSource mail_world 0 + signed (3::32 word))"
    by (simp add: mail_world_fields)
  from timed have readings: "\<forall>i. Suc (timeCalls mail_world) \<le> i \<and>
        i < timeCalls (mail_world\<lparr>timeCalls := 4,
                         trace := [DispatchNext True, DispatchNext True]\<rparr>) - 1 \<longrightarrow>
        timeSource mail_world i <s
          timeSource mail_world (timeCalls mail_world) + signed (3::32 word)"
    by blast
  from readings [rule_format, of 1]
  have b: "timeSource mail_world 1 <s timeSource mail_world 0 + signed (3::32 word)"
    by (simp add: mail_world_fields(3))
  from readings [rule_format, of 2]
  have c: "timeSource mail_world 2 <s timeSource mail_world 0 + signed (3::32 word)"
    by (simp add: mail_world_fields(3))
  from untimed have d: "(- 1 :: 32 word) <s 0"
    by (simp add: signed.not_le [symmetric])
  from a have a1: "0 \<le>s (3::32 word)"
    and a2: "\<not> (timeSource mail_world 3 <s timeSource mail_world 0 + signed (3::32 word))"
    by blast+
  show ?thesis
    by (intro conjI) (rule untimed_run timed_run a1 a2 b c d)+
qed

lemma post_instance:
  "postMessageToQueue message w = Some w' \<Longrightarrow> instance' w' = instance' w"
  by (auto simp: postMessageToQueue_def delete_Message_def juce_postMessageToSystemQueue_def
      Let_def split: option.splits if_splits)

lemma stop_quit:
  assumes "stopDispatchLoop p w = Some w'" and "quitReceived w"
  shows "quitReceived w'"
proof -
  from assms(1) obtain w1 w2 this where
    n: "new_Message p ((Message_ctor quitMessageId 0 0 0)\<lparr>messageRecipient := 0\<rparr>) w = Some w1"
    and q: "postMessageToQueue p w1 = Some w2"
    and i: "instance' w2 = Some this"
    and w': "w' = w2\<lparr>instance' := Some (this\<lparr>quitMessagePosted := True\<rparr>)\<rparr>"
    by (auto simp: stopDispatchLoop_def bind_eq_Some_conv)
  from n have "instance' w1 = instance' w"
    by (auto simp: new_Message_def split: if_splits)
  with post_instance [OF q] i have "instance' w = Some this"
    by simp
  with assms(2) have "quitMessageReceived this"
    by (simp add: quitReceived_def)
  with w' show ?thesis
    by (simp add: quitReceived_def)
qed

lemma poll_quit:
  fixes w :: "'u world"
  assumes "MessageManagerLock_poll sleep thread tid junk i w = Some r"
  shows "(\<forall>j v. quitReceived v \<longrightarrow> quitReceived (sleep j v)) \<longrightarrow> quitReceived w \<longrightarrow>
         quitReceived (snd r)"
proof (rule MessageManagerLock_poll.raw_induct [OF _ assms], goal_cases)
  case (1 poll sleep thread tid junk i w r)
  show ?case
  proof (intro impI)
    assume env: "\<forall>j v. quitReceived v \<longrightarrow> quitReceived (sleep j v)" and q: "quitReceived w"
    from q obtain this where inst: "instance' w = Some this" and qr: "quitMessageReceived this"
      by (auto simp: quitReceived_def split: option.splits)
    from 1(2) inst
    have "snd r = w\<lparr>instance' := Some (this\<lparr>messageDispatchLock := Some tid,
                                              currentLockingThreadId := tid\<rparr>)\<rparr> \<or>
          snd r = w \<or>
          poll sleep thread tid junk (Suc i) (sleep i w) = Some r"
      by (auto simp: CriticalSection_tryEnter_def split: option.splits if_splits)
    then show "quitReceived (snd r)"
    proof (elim disjE)
      assume "snd r = w\<lparr>instance' := Some (this\<lparr>messageDispatchLock := Some tid,
                                                  currentLockingThreadId := tid\<rparr>)\<rparr>"
      with qr show ?thesis
        by (simp add: quitReceived_def)
    next
      assume "snd r = w"
      with q show ?thesis
        by simp
    next
      assume "poll sleep thread tid junk (Suc i) (sleep i w) = Some r"
      from 1(1) [OF this] env q show ?thesis
        by blast
    qed
  qed
qed

text \<open>
  C8. Once \<^verbatim>\<open>quitMessageReceived\<close> is set, it is still set after every operation of
  the message manager and of its lock that returns (for the polling constructor:
  provided the other threads, which run during its sleeps, do not reset it either), and
  the dispatch loop, entered or re-entered at the test of its condition, returns false
  without calling the platform function: the log and the system queue are unchanged,
  only the clock has been read. The destructor of the message manager, which ends the
  life of the flag, is not among these operations.
\<close>

theorem quit_received_is_final:
  fixes w :: "'u world"
  assumes q: "quitReceived w"
  shows "(\<forall>message w'. postMessageToQueue message w = Some w' \<longrightarrow> quitReceived w') \<and>
         (\<forall>h tid message w'. deliverMessage h tid message w = Some w' \<longrightarrow> quitReceived w') \<and>
         (\<forall>p w'. stopDispatchLoop p w = Some w' \<longrightarrow> quitReceived w') \<and>
         (\<forall>send v w'. deliverBroadcastMessage send v w = Some w' \<longrightarrow> quitReceived w') \<and>
         (\<forall>tid lock w'. MessageManagerLock_ctor tid w = Some (lock, w') \<longrightarrow> quitReceived w') \<and>
         (\<forall>sleep thread tid junk lock w'.
            (\<forall>j v. quitReceived v \<longrightarrow> quitReceived (sleep j v)) \<and>
            MessageManagerLock_ctor_Thread sleep thread tid junk w = Some (lock, w') \<longrightarrow>
              quitReceived w') \<and>
         (\<forall>lock. quitReceived (MessageManagerLock_dtor lock w)) \<and>
         (\<forall>init tid. MessageManager_getInstance init tid w = w) \<and>
         (\<forall>this. instance' w = Some this \<longrightarrow>
            (\<forall>t. quitMessageReceived (setCurrentMessageThread t this)) \<and>
            (\<forall>add l. quitMessageReceived (registerBroadcastListener add l this)) \<and>
            (\<forall>remove l. quitMessageReceived (deregisterBroadcastListener remove l this))) \<and>
         (\<forall>h tid ms e.
            dispatchLoop h tid ms e w =
              Some (False, if ms <s 0 then w else w\<lparr>timeCalls := Suc (timeCalls w)\<rparr>)) \<and>
         (\<forall>h tid ms.
            runDispatchLoopUntil h tid ms w =
              Some (False, w\<lparr>timeCalls := (if ms <s 0 then 1 else 2) + timeCalls w\<rparr>)) \<and>
         (\<forall>h tid. runDispatchLoop h tid w = Some (w\<lparr>timeCalls := Suc (timeCalls w)\<rparr>))"
proof -
  from q obtain this where inst: "instance' w = Some this" and qr: "quitMessageReceived this"
    by (auto simp: quitReceived_def split: option.splits)
  have post: "quitReceived w'" if "postMessageToQueue message w = Some w'" for message w'
    using post_instance [OF that] q by (simp add: quitReceived_def)
  have deliver: "quitReceived w'" if "deliverMessage h tid message w = Some w'"
    for h tid message w'
    using deliver_frame [OF that] q by blast
  have stop: "quitReceived w'" if "stopDispatchLoop p w = Some w'" for p w'
    using stop_quit [OF that q] .
  have broadcast: "quitReceived w'" if "deliverBroadcastMessage send v w = Some w'"
    for send v w'
    using that q
    by (auto simp: deliverBroadcastMessage_def quitReceived_def split: option.splits)
  have ctor: "quitReceived w'" if "MessageManagerLock_ctor tid w = Some (lock, w')"
    for tid lock w'
    using that q
    by (auto simp: MessageManagerLock_ctor_def quitReceived_def split: option.splits)
  have ctor_Thread: "quitReceived w'"
    if "\<forall>j v. quitReceived v \<longrightarrow> quitReceived (sleep j v)"
      and "MessageManagerLock_ctor_Thread sleep thread tid junk w = Some (lock, w')"
    for sleep thread tid junk lock w'
  proof -
    from that(2) inst
    have "MessageManagerLock_poll sleep thread tid junk 0 w = Some (lock, w')"
      by (simp add: MessageManagerLock_ctor_Thread_def)
    from poll_quit [OF this] that(1) q show ?thesis
      by simp
  qed
  have dtor: "quitReceived (MessageManagerLock_dtor lock w)" for lock
    using inst qr by (simp add: MessageManagerLock_dtor_def quitReceived_def)
  have getInstance: "MessageManager_getInstance init tid w = w" for init tid
    using inst by (simp add: MessageManager_getInstance_def)
  have members:
    "(\<forall>t. quitMessageReceived (setCurrentMessageThread t this')) \<and>
     (\<forall>add l. quitMessageReceived (registerBroadcastListener add l this')) \<and>
     (\<forall>remove l. quitMessageReceived (deregisterBroadcastListener remove l this'))"
    if "instance' w = Some this'" for this'
    using that inst qr
    by (auto simp: setCurrentMessageThread_def registerBroadcastListener_def
        deregisterBroadcastListener_def split: option.splits)
  have loop: "dispatchLoop h tid ms e w =
      Some (False, if ms <s 0 then w else w\<lparr>timeCalls := Suc (timeCalls w)\<rparr>)"
    for h tid ms e
    using dispatchLoop_quit [OF inst qr] .
  have run: "runDispatchLoopUntil h tid ms w =
      Some (False, w\<lparr>timeCalls := (if ms <s 0 then 1 else 2) + timeCalls w\<rparr>)"
    for h tid ms
    using dispatchLoop_quit [of "w\<lparr>timeCalls := Suc (timeCalls w)\<rparr>" this h tid ms] inst qr
    by (simp add: runDispatchLoopUntil_def Time_currentTimeMillis_def)
  have forever: "runDispatchLoop h tid w = Some (w\<lparr>timeCalls := Suc (timeCalls w)\<rparr>)"
    for h tid
    using run [of h tid "- 1"]
    by (simp add: runDispatchLoop_def word_sless_alt)
  show ?thesis
    by (intro conjI allI impI)
       (auto intro: post deliver stop broadcast ctor ctor_Thread dtor
         simp: getInstance loop run forever members)
qed

theorem quit_received_is_final_witness:
  "quitReceived finished_world \<and>
   systemQueue finished_world = [10] \<and>
   runDispatchLoopUntil counting_handler 1 (- 1) finished_world =
     Some (False, finished_world\<lparr>timeCalls := 1\<rparr>) \<and>
   runDispatchLoopUntil counting_handler 1 5 finished_world =
     Some (False, finished_world\<lparr>timeCalls := 2\<rparr>) \<and>
   quitReceived (MessageManagerLock_dtor \<lparr>lastLockingThreadId = 0, locked = True\<rparr> finished_world) \<and>
   (\<exists>w'. deliverMessage counting_handler 1 10 finished_world = Some w' \<and> quitReceived w')"
proof -
  let ?mm = "listening_manager\<lparr>quitMessageReceived := True\<rparr>"
  have q: "quitReceived finished_world"
    by (simp add: quitReceived_def finished_world_def)
  have i: "instance' finished_world = Some ?mm"
    by (simp add: finished_world_def)
  have f: "messageDispatchLock ?mm = None"
    by (simp add: listening_manager_fields)
  have m: "Message_at 10 finished_world = Some to_listener"
    by (simp add: finished_world_def mail_world_def Message_at_def)
  have r: "messageRecipient to_listener \<in> messageListeners ?mm"
    by (simp add: to_listener_def listening_manager_fields)
  have tc: "timeCalls finished_world = 0"
    by (simp add: finished_world_def mail_world_fields)
  note final = quit_received_is_final [OF q]
  from final have "runDispatchLoopUntil counting_handler 1 (- 1) finished_world =
      Some (False, finished_world\<lparr>timeCalls :=
              (if (- 1 :: 32 word) <s 0 then 1 else 2) + timeCalls finished_world\<rparr>)"
    by blast
  then have 1: "runDispatchLoopUntil counting_handler 1 (- 1) finished_world =
      Some (False, finished_world\<lparr>timeCalls := 1\<rparr>)"
    by (simp add: tc word_sless_alt)
  from final have "runDispatchLoopUntil counting_handler 1 5 finished_world =
      Some (False, finished_world\<lparr>timeCalls :=
              (if (5 :: 32 word) <s 0 then 1 else 2) + timeCalls finished_world\<rparr>)"
    by blast
  then have 2: "runDispatchLoopUntil counting_handler 1 5 finished_world =
      Some (False, finished_world\<lparr>timeCalls := 2\<rparr>)"
    by (simp add: tc word_sless_alt)
  from final
  have 3: "quitReceived (MessageManagerLock_dtor \<lparr>lastLockingThreadId = 0, locked = True\<rparr>
             finished_world)"
    by blast
  from deliver_listener [OF i f m r, of counting_handler 1]
  obtain w' where d: "deliverMessage counting_handler 1 10 finished_world = Some w'"
    by (auto simp: counting_handler_def)
  from final [THEN conjunct2, THEN conjunct1, rule_format, OF d] have "quitReceived w'" .
  with d have 4: "\<exists>w'. deliverMessage counting_handler 1 10 finished_world = Some w' \<and>
                    quitReceived w'"
    by blast
  have 5: "systemQueue finished_world = [10]"
    by (simp add: finished_world_def)
  from q 1 2 3 4 5 show ?thesis
    by blast
qed

end
